theory Spec2Isabelle
  imports Complex_Main "HOL-Library.Multiset" "HOL-Library.Product_Lexorder"
begin

section \<open>Values: floats, missing markers, cells, errors\<close>

text \<open>
  The script \<^verbatim>\<open>create_enrichment_comparison_table.py\<close> works on pandas tables whose
  numeric cells are IEEE-754 doubles. Every double other than NaN is an extended rational
  number, so a float is modelled by the number it denotes: \<open>Fin q\<close>, or one of the two
  infinities. NaN, which pandas uses as its missing marker, is the value \<open>None\<close> of
  \<open>num\<close>. Comparison on \<open>fl\<close> is the order of the denoted numbers, which is the order
  Python's \<^verbatim>\<open><\<close> and \<^verbatim>\<open><=\<close> compute on doubles.

  Strings are lists of 8-bit characters: the model covers text whose code points are
  below 256.
\<close>

datatype fl = NegInf | Fin rat | PosInf

type_synonym num = "fl option"

fun fl_le :: "fl \<Rightarrow> fl \<Rightarrow> bool" where
  "fl_le NegInf _ = True"
| "fl_le (Fin a) NegInf = False"
| "fl_le (Fin a) (Fin b) = (a \<le> b)"
| "fl_le (Fin a) PosInf = True"
| "fl_le PosInf PosInf = True"
| "fl_le PosInf _ = False"

definition fl_less :: "fl \<Rightarrow> fl \<Rightarrow> bool" where
  "fl_less a b = (\<not> fl_le b a)"

text \<open>
  \<^verbatim>\<open>series < 0.05\<close> on a float column: a comparison with NaN is false.
\<close>

definition num_less :: "num \<Rightarrow> fl \<Rightarrow> bool" where
  "num_less v t = (case v of None \<Rightarrow> False | Some x \<Rightarrow> fl_less x t)"

text \<open>
  A cell of the topGO \<^verbatim>\<open>fisher\<close> column as \<^verbatim>\<open>pd.read_csv\<close> delivers it: missing
  (NaN), text (the column holds an entry such as \<^verbatim>\<open>< 1e-30\<close>, so it is read as
  strings), or a float (every entry of the column is numeric).
\<close>

datatype cell = Missing | Text string | Number fl

text \<open>
  The exceptions of the run. \<open>KeyError c\<close> is raised for a column \<open>c\<close> that a table
  lacks. \<open>ValueError s\<close> is raised by \<^verbatim>\<open>float\<close> for a text \<open>s\<close> it rejects, and by
  \<^verbatim>\<open>merge\<close> with the message \<open>s\<close>.
\<close>

datatype error = KeyError string | ValueError string

section \<open>Python's \<^verbatim>\<open>str.strip\<close> and \<^verbatim>\<open>float\<close>\<close>

text \<open>
  \<^verbatim>\<open>str.strip()\<close> removes the characters for which \<^verbatim>\<open>str.isspace\<close> holds: below code
  point 256 these are 9 to 13, 28 to 32, 133 and 160.
\<close>

definition is_space :: "char \<Rightarrow> bool" where
  "is_space c = (let n = (of_char c :: nat)
                 in (9 \<le> n \<and> n \<le> 13) \<or> (28 \<le> n \<and> n \<le> 32) \<or> n = 133 \<or> n = 160)"

definition strip :: "string \<Rightarrow> string" where
  "strip s = rev (dropWhile is_space (rev (dropWhile is_space s)))"

definition digit_of :: "char \<Rightarrow> nat option" where
  "digit_of c = (let n = (of_char c :: nat)
                 in if 48 \<le> n \<and> n \<le> 57 then Some (n - 48) else None)"

definition lower :: "char \<Rightarrow> char" where
  "lower c = (let n = (of_char c :: nat)
              in if 65 \<le> n \<and> n \<le> 90 then char_of (n + 32) else c)"

text \<open>
  The grammar \<^verbatim>\<open>float\<close> accepts (Python language reference, "floatvalue"): optional
  sign, then \<^verbatim>\<open>inf\<close>, \<^verbatim>\<open>infinity\<close> or \<^verbatim>\<open>nan\<close> in any case, or a decimal number:
  digits with single underscores between them, an optional fraction, an optional exponent.
  \<open>more_digits\<close> reads the rest of a digit part, \<open>digitpart\<close> a whole one; both return
  the digits read and the unread rest.
\<close>

fun more_digits :: "nat list \<Rightarrow> string \<Rightarrow> nat list \<times> string" where
  "more_digits acc [] = (acc, [])"
| "more_digits acc [c] =
     (case digit_of c of Some d \<Rightarrow> (acc @ [d], []) | None \<Rightarrow> (acc, [c]))"
| "more_digits acc (c # c' # cs) =
     (case digit_of c of
        Some d \<Rightarrow> more_digits (acc @ [d]) (c' # cs)
      | None \<Rightarrow>
          (if c = CHR ''_''
           then (case digit_of c' of
                   Some d' \<Rightarrow> more_digits (acc @ [d']) cs
                 | None \<Rightarrow> (acc, c # c' # cs))
           else (acc, c # c' # cs)))"

definition digitpart :: "string \<Rightarrow> (nat list \<times> string) option" where
  "digitpart s =
     (case s of
        [] \<Rightarrow> None
      | c # cs \<Rightarrow> (case digit_of c of None \<Rightarrow> None | Some d \<Rightarrow> Some (more_digits [d] cs)))"

definition digits_value :: "nat list \<Rightarrow> nat" where
  "digits_value ds = foldl (\<lambda>a d. 10 * a + d) 0 ds"

definition sign :: "string \<Rightarrow> bool \<times> string" where
  "sign s =
     (case s of
        [] \<Rightarrow> (False, [])
      | c # cs \<Rightarrow> if c = CHR ''-'' then (True, cs)
                  else if c = CHR ''+'' then (False, cs) else (False, s))"

text \<open>
  The mantissa: integer digits, fraction digits and the unread rest; \<open>None\<close> when the
  text starts with neither a digit part nor a point followed by one.
\<close>

definition mantissa :: "string \<Rightarrow> (nat list \<times> nat list \<times> string) option" where
  "mantissa s =
     (case digitpart s of
        Some (ip, r) \<Rightarrow>
          (case r of
             [] \<Rightarrow> Some (ip, [], [])
           | c # r' \<Rightarrow>
               if c = CHR ''.''
               then (case digitpart r' of
                       Some (fp, r'') \<Rightarrow> Some (ip, fp, r'')
                     | None \<Rightarrow> Some (ip, [], r'))
               else Some (ip, [], r))
      | None \<Rightarrow>
          (case s of
             [] \<Rightarrow> None
           | c # r' \<Rightarrow>
               if c = CHR ''.''
               then (case digitpart r' of
                       Some (fp, r'') \<Rightarrow> Some ([], fp, r'')
                     | None \<Rightarrow> None)
               else None))"

text \<open>
  What follows the mantissa: nothing (exponent 0), or \<^verbatim>\<open>e\<close>/\<^verbatim>\<open>E\<close>, an optional sign
  and a digit part that ends the text. Anything else is a syntax error, \<open>None\<close>.
\<close>

definition exponent :: "string \<Rightarrow> int option" where
  "exponent r =
     (case r of
        [] \<Rightarrow> Some 0
      | c # r' \<Rightarrow>
          if c = CHR ''e'' \<or> c = CHR ''E''
          then (case sign r' of
                  (neg, r'') \<Rightarrow>
                    (case digitpart r'' of
                       Some (ds, rest) \<Rightarrow>
                         if rest = []
                         then Some ((if neg then - 1 else 1) * int (digits_value ds))
                         else None
                     | None \<Rightarrow> None))
          else None)"

definition decimal_value :: "nat list \<Rightarrow> nat list \<Rightarrow> int \<Rightarrow> rat" where
  "decimal_value ip fp e =
     (let m = of_nat (digits_value (ip @ fp)); k = e - int (length fp)
      in if 0 \<le> k then m * 10 ^ nat k else m / 10 ^ nat (- k))"

text \<open>
  \<open>py_float to_float s\<close> is \<^verbatim>\<open>float(s)\<close>: \<open>Inl (ValueError s)\<close> where Python raises
  \<^verbatim>\<open>ValueError\<close>, \<open>Inr None\<close> for NaN. The rounding of an exact decimal to the nearest
  double is the runtime's; it is the parameter \<open>to_float\<close>, so that the float literal
  \<^verbatim>\<open>0.05\<close> of the script is \<open>to_float (1 / 20)\<close>.
\<close>

definition py_float :: "(rat \<Rightarrow> fl) \<Rightarrow> string \<Rightarrow> error + num" where
  "py_float to_float s =
     (case sign (strip s) of
        (neg, u) \<Rightarrow>
          if map lower u = ''inf'' \<or> map lower u = ''infinity''
          then Inr (Some (if neg then NegInf else PosInf))
          else if map lower u = ''nan'' then Inr None
          else (case mantissa u of
                  None \<Rightarrow> Inl (ValueError s)
                | Some (ip, fp, r) \<Rightarrow>
                    (case exponent r of
                       None \<Rightarrow> Inl (ValueError s)
                     | Some e \<Rightarrow>
                         Inr (Some (to_float ((if neg then - 1 else 1)
                                              * decimal_value ip fp e))))))"

section \<open>The p-value normalizer\<close>

text \<open>
  \<^verbatim>\<open>parse_p_value\<close>, lines 15 to 32. A missing cell gives NaN. A text cell is stripped,
  loses one leading \<^verbatim>\<open><\<close> and is stripped again (\<open>drop_less\<close>, lines 26 and 27), then
  goes to \<^verbatim>\<open>float\<close>; the
  \<^verbatim>\<open>except ValueError\<close> clause turns that one exception into NaN and lets any other
  through. A float cell \<open>x\<close> goes through \<^verbatim>\<open>float(str(x))\<close>, which is \<open>x\<close> again
  (Python's \<^verbatim>\<open>repr\<close> of a float reads back as the same float, and it never starts with
  \<^verbatim>\<open><\<close>).
\<close>

definition drop_less :: "string \<Rightarrow> string" where
  "drop_less p_str =
     (case p_str of
        [] \<Rightarrow> p_str
      | c # cs \<Rightarrow> if c = CHR ''<'' then strip cs else p_str)"

definition parse_p_value :: "(rat \<Rightarrow> fl) \<Rightarrow> cell \<Rightarrow> error + num" where
  "parse_p_value to_float p_val_str =
     (case p_val_str of
        Missing \<Rightarrow> Inr None
      | Number x \<Rightarrow> Inr (Some x)
      | Text s \<Rightarrow>
          (case py_float to_float (drop_less (strip s)) of
             Inl (ValueError _) \<Rightarrow> Inr None
           | Inl e \<Rightarrow> Inl e
           | Inr v \<Rightarrow> Inr v))"

section \<open>Input files and standardized tables\<close>

text \<open>
  A CSV file after \<^verbatim>\<open>pd.read_csv\<close>: the column names of its header row and its data
  rows. A row is a record with one field per column of the method's schema, typed as
  the dtype inference of \<^verbatim>\<open>read_csv\<close> types a file that follows the schema (text or
  missing, number or missing, boolean or missing). The field of a column that the header
  lacks is never read: access to the column fails first.

  The fields are named after the CSV columns, prefixed by the method:
  \<open>cpf_p_adjust\<close> is clusterProfiler's column \<^verbatim>\<open>p.adjust\<close>, \<open>tgf_GO_ID\<close> is topGO's
  column \<^verbatim>\<open>GO.ID\<close>.
\<close>

record cp_raw =
  cpf_ID :: "string option"
  cpf_Description :: "string option"
  cpf_pvalue :: num
  cpf_qvalue :: num
  cpf_p_adjust :: num
  cpf_FoldEnrichment :: num
  cpf_Count :: num
  cpf_GeneRatio :: "string option"
  cpf_geneID :: "string option"

record gp_raw =
  gpf_source :: "string option"
  gpf_term_id :: "string option"
  gpf_term_name :: "string option"
  gpf_p_value :: num
  gpf_significant :: "bool option"
  gpf_term_size :: num
  gpf_intersection_size :: num
  gpf_precision :: num
  gpf_recall :: num

record tg_raw =
  tgf_GO_ID :: "string option"
  tgf_Term :: "string option"
  tgf_fisher :: cell
  tgf_Annotated :: num
  tgf_Significant :: num
  tgf_Expected :: num

record 'r csv =
  header :: "string list"
  rows :: "'r list"

text \<open>
  The dtype of a key column, as far as \<^verbatim>\<open>merge\<close> looks at it. \<^verbatim>\<open>read_csv\<close> reads a
  column of identifiers as \<^verbatim>\<open>object\<close> when it holds a string or when the file has no
  data row, and as \<^verbatim>\<open>float64\<close> when the file has data rows and every cell of the
  column is empty (a column of NaN).
\<close>

datatype dtype = Object | Float64

definition dtype_name :: "dtype \<Rightarrow> string" where
  "dtype_name d = (case d of Object \<Rightarrow> ''object'' | Float64 \<Rightarrow> ''float64'')"

definition key_dtype :: "string option list \<Rightarrow> dtype" where
  "key_dtype ks = (if ks \<noteq> [] \<and> list_all (\<lambda>k. k = None) ks then Float64 else Object)"

text \<open>
  A table with the key column \<^verbatim>\<open>term_id\<close>: the dtype of that column and the rows.
\<close>

record 'r table =
  term_id_dtype :: dtype
  table_rows :: "'r list"

text \<open>
  The standardized tables the three loaders return. Field \<open>cp_pvalue\<close> is the column
  \<^verbatim>\<open>clusterprofiler_pvalue\<close>, \<open>gp_pvalue\<close> is \<^verbatim>\<open>gprofiler2_pvalue\<close>, \<open>tg_pvalue\<close> is
  \<^verbatim>\<open>topgo_pvalue\<close>, and so on; \<open>cp_term_id\<close>, \<open>gp_term_id\<close> and \<open>tg_term_id\<close> are
  the column \<^verbatim>\<open>term_id\<close> of each table.
\<close>

record cp_std =
  cp_term_id :: "string option"
  cp_term_name :: "string option"
  cp_pvalue :: num
  cp_qvalue :: num
  cp_p_adjust :: num
  cp_fold_enrichment :: num
  cp_gene_count :: num
  cp_gene_ratio :: "string option"
  cp_genes :: "string option"
  cp_significant :: bool

record gp_std =
  gp_term_id :: "string option"
  gp_term_name :: "string option"
  gp_pvalue :: num
  gp_significant :: "bool option"
  gp_term_size :: num
  gp_intersection_size :: num
  gp_precision :: num
  gp_recall :: num

record tg_std =
  tg_term_id :: "string option"
  tg_term_name :: "string option"
  tg_pvalue_raw :: cell
  tg_annotated :: num
  tg_significant :: num
  tg_expected :: num
  tg_pvalue :: num
  tg_significant_flag :: bool

section \<open>The loaders\<close>

text \<open>
  \<^verbatim>\<open>df[c]\<close> raises \<^verbatim>\<open>KeyError(c)\<close> when the header has no column \<open>c\<close>. A loader reads
  its columns in the order of its dictionary display, so the first one absent is the one
  the exception names.
\<close>

definition first_missing :: "string list \<Rightarrow> string list \<Rightarrow> string option" where
  "first_missing hdr cols = find (\<lambda>c. c \<notin> set hdr) cols"

definition cp_columns :: "string list" where
  "cp_columns = [''ID'', ''Description'', ''pvalue'', ''qvalue'', ''p.adjust'',
                 ''FoldEnrichment'', ''Count'', ''GeneRatio'', ''geneID'']"

definition gp_columns :: "string list" where
  "gp_columns = [''term_id'', ''term_name'', ''p_value'', ''significant'', ''term_size'',
                 ''intersection_size'', ''precision'', ''recall'']"

definition tg_columns :: "string list" where
  "tg_columns = [''GO.ID'', ''Term'', ''fisher'', ''Annotated'', ''Significant'', ''Expected'']"

text \<open>\<^verbatim>\<open>load_clusterprofiler_results\<close>, lines 34 to 54.\<close>

definition load_clusterprofiler_results ::
  "(rat \<Rightarrow> fl) \<Rightarrow> cp_raw csv \<Rightarrow> error + cp_std table" where
  "load_clusterprofiler_results to_float df =
     (case first_missing (header df) cp_columns of
        Some c \<Rightarrow> Inl (KeyError c)
      | None \<Rightarrow>
          Inr \<lparr>term_id_dtype = key_dtype (map cpf_ID (rows df)),
               table_rows =
                 map (\<lambda>r. \<lparr>cp_term_id = cpf_ID r,
                          cp_term_name = cpf_Description r,
                          cp_pvalue = cpf_pvalue r,
                          cp_qvalue = cpf_qvalue r,
                          cp_p_adjust = cpf_p_adjust r,
                          cp_fold_enrichment = cpf_FoldEnrichment r,
                          cp_gene_count = cpf_Count r,
                          cp_gene_ratio = cpf_GeneRatio r,
                          cp_genes = cpf_geneID r,
                          cp_significant = num_less (cpf_qvalue r) (to_float (1 / 20))\<rparr>)
                     (rows df)\<rparr>)"

text \<open>
  \<^verbatim>\<open>load_gprofiler2_results\<close>, lines 56 to 74: the column \<^verbatim>\<open>source\<close> is read first,
  for the filter; the other columns are read from the filtered table, whose columns keep
  the dtypes of the file's.
\<close>

definition load_gprofiler2_results :: "gp_raw csv \<Rightarrow> error + gp_std table" where
  "load_gprofiler2_results df =
     (if ''source'' \<notin> set (header df) then Inl (KeyError ''source'')
      else (case first_missing (header df) gp_columns of
              Some c \<Rightarrow> Inl (KeyError c)
            | None \<Rightarrow>
                Inr \<lparr>term_id_dtype = key_dtype (map gpf_term_id (rows df)),
                     table_rows =
                       map (\<lambda>r. \<lparr>gp_term_id = gpf_term_id r,
                                gp_term_name = gpf_term_name r,
                                gp_pvalue = gpf_p_value r,
                                gp_significant = gpf_significant r,
                                gp_term_size = gpf_term_size r,
                                gp_intersection_size = gpf_intersection_size r,
                                gp_precision = gpf_precision r,
                                gp_recall = gpf_recall r\<rparr>)
                           (filter (\<lambda>r. gpf_source r = Some ''GO:BP'') (rows df))\<rparr>))"

text \<open>
  \<^verbatim>\<open>Series.apply(f)\<close> calls \<open>f\<close> on the cells in order; the first exception ends it.
\<close>

fun sequence_err :: "(error + 'a) list \<Rightarrow> error + 'a list" where
  "sequence_err [] = Inr []"
| "sequence_err (x # xs) =
     (case x of
        Inl e \<Rightarrow> Inl e
      | Inr v \<Rightarrow> (case sequence_err xs of Inl e \<Rightarrow> Inl e | Inr vs \<Rightarrow> Inr (v # vs)))"

text \<open>\<^verbatim>\<open>load_topgo_results\<close>, lines 76 to 95.\<close>

definition load_topgo_results ::
  "(rat \<Rightarrow> fl) \<Rightarrow> tg_raw csv \<Rightarrow> error + tg_std table" where
  "load_topgo_results to_float df =
     (case first_missing (header df) tg_columns of
        Some c \<Rightarrow> Inl (KeyError c)
      | None \<Rightarrow>
          (case sequence_err (map (\<lambda>r. parse_p_value to_float (tgf_fisher r)) (rows df)) of
             Inl e \<Rightarrow> Inl e
           | Inr ps \<Rightarrow>
               Inr \<lparr>term_id_dtype = key_dtype (map tgf_GO_ID (rows df)),
                    table_rows =
                      map (\<lambda>(r, p). \<lparr>tg_term_id = tgf_GO_ID r,
                                    tg_term_name = tgf_Term r,
                                    tg_pvalue_raw = tgf_fisher r,
                                    tg_annotated = tgf_Annotated r,
                                    tg_significant = tgf_Significant r,
                                    tg_expected = tgf_Expected r,
                                    tg_pvalue = p,
                                    tg_significant_flag = num_less p (to_float (1 / 20))\<rparr>)
                          (zip (rows df) ps)\<rparr>))"

section \<open>The merged table\<close>

text \<open>
  The final table \<^verbatim>\<open>result_df\<close> has the 23 columns of \<^verbatim>\<open>final_columns\<close>, under their
  names after the renaming of lines 174 to 177. The working table \<^verbatim>\<open>master_df\<close> has
  these and four more, which the selection of line 171 drops: the three per-method name
  columns (pandas calls them \<^verbatim>\<open>term_name\<close>, \<^verbatim>\<open>term_name_gp\<close> and \<^verbatim>\<open>term_name_tg\<close>
  after the suffixing of the merges) and \<^verbatim>\<open>clusterprofiler_gene_ratio\<close>. So a row of
  \<^verbatim>\<open>master_df\<close> is a row of \<^verbatim>\<open>result_df\<close> extended by four fields, where

    \<^item> field \<open>term_name\<close> is \<^verbatim>\<open>term_name_final\<close> of \<^verbatim>\<open>master_df\<close>, renamed
      \<^verbatim>\<open>term_name\<close> in \<^verbatim>\<open>result_df\<close>;
    \<^item> field \<open>clusterprofiler_gene_ids\<close> is \<^verbatim>\<open>clusterprofiler_genes\<close> of
      \<^verbatim>\<open>master_df\<close>;
    \<^item> field \<open>term_name_cp\<close> is the column \<^verbatim>\<open>term_name\<close> of \<^verbatim>\<open>master_df\<close>, the name
      clusterProfiler gave.

  A significance flag of the merged table is \<open>None\<close> when its cell is NaN.
\<close>

record out_row =
  term_id :: string
  term_name :: string
  methods_significant :: nat
  methods_total :: nat
  clusterprofiler_pvalue :: num
  clusterprofiler_qvalue :: num
  clusterprofiler_p_adjust :: num
  clusterprofiler_fold_enrichment :: num
  clusterprofiler_gene_count :: num
  clusterprofiler_significant :: "bool option"
  gprofiler2_pvalue :: num
  gprofiler2_significant :: "bool option"
  gprofiler2_term_size :: num
  gprofiler2_intersection_size :: num
  gprofiler2_precision :: num
  gprofiler2_recall :: num
  topgo_pvalue :: num
  topgo_pvalue_raw :: cell
  topgo_significant_flag :: "bool option"
  topgo_annotated :: num
  topgo_significant :: num
  topgo_expected :: num
  clusterprofiler_gene_ids :: "string option"

record master = out_row +
  term_name_cp :: "string option"
  term_name_gp :: "string option"
  term_name_tg :: "string option"
  clusterprofiler_gene_ratio :: "string option"

text \<open>\<^verbatim>\<open>Series.dropna()\<close> on a column of identifiers.\<close>

fun dropna :: "'a option list \<Rightarrow> 'a list" where
  "dropna [] = []"
| "dropna (None # xs) = dropna xs"
| "dropna (Some x # xs) = x # dropna xs"

text \<open>
  The rows of \<^verbatim>\<open>left.merge(right, on='term_id', how='left')\<close>: the rows of the left
  table in their order, each once per right row with the same key, in the right table's
  order, or once with no partner when the right table has no such row.
\<close>

definition joined_rows ::
  "'l list \<Rightarrow> ('l \<Rightarrow> string option) \<Rightarrow> 'r list \<Rightarrow> ('r \<Rightarrow> string option)
     \<Rightarrow> ('l \<times> 'r option) list" where
  "joined_rows left lkey right rkey =
     concat (map (\<lambda>l. case filter (\<lambda>r. rkey r = lkey l) right of
                         [] \<Rightarrow> [(l, None)]
                       | ms \<Rightarrow> map (\<lambda>r. (l, Some r)) ms)
                 left)"

text \<open>
  Before it joins, \<^verbatim>\<open>merge\<close> compares the dtypes of the two key columns. It skips
  the comparison when exactly one of the tables has no row, and accepts equal dtypes.
  Keys of dtype \<^verbatim>\<open>object\<close> on one side and \<^verbatim>\<open>float64\<close> on the other are refused with
  a \<^verbatim>\<open>ValueError\<close> when one side looks like strings and the other does not. That is
  the case for the tables merged here, where the left key column never holds a missing
  value: a left \<^verbatim>\<open>object\<close> column holds strings or is empty, and a \<^verbatim>\<open>float64\<close>
  column is all NaN or empty.
\<close>

definition keys_clash :: "'l table \<Rightarrow> 'r table \<Rightarrow> bool" where
  "keys_clash left right =
     (((table_rows left = []) = (table_rows right = []))
      \<and> term_id_dtype left \<noteq> term_id_dtype right)"

text \<open>The start of the message of that \<^verbatim>\<open>ValueError\<close>, up to the word "columns".\<close>

definition merge_message :: "dtype \<Rightarrow> dtype \<Rightarrow> string" where
  "merge_message l r =
     ''You are trying to merge on '' @ dtype_name l @ '' and '' @ dtype_name r @ '' columns''"

text \<open>
  \<^verbatim>\<open>left.merge(right, on='term_id', how='left')\<close>, lines 124 to 126: the exception of
  the dtype check, or the joined table, whose key column is the left table's.
\<close>

definition merge_left ::
  "'l table \<Rightarrow> ('l \<Rightarrow> string option) \<Rightarrow> 'r table \<Rightarrow> ('r \<Rightarrow> string option)
     \<Rightarrow> error + ('l \<times> 'r option) table" where
  "merge_left left lkey right rkey =
     (if keys_clash left right
      then Inl (ValueError (merge_message (term_id_dtype left) (term_id_dtype right)))
      else Inr \<lparr>term_id_dtype = term_id_dtype left,
                table_rows = joined_rows (table_rows left) lkey (table_rows right) rkey\<rparr>)"

text \<open>A column of the right table in the merged one: NaN where the row has no partner.\<close>

definition col :: "'r option \<Rightarrow> ('r \<Rightarrow> 'a option) \<Rightarrow> 'a option" where
  "col partner field = (case partner of None \<Rightarrow> None | Some r \<Rightarrow> field r)"

text \<open>\<^verbatim>\<open>get_best_term_name\<close>, lines 129 to 133.\<close>

definition get_best_term_name ::
  "string option \<Rightarrow> string option \<Rightarrow> string option \<Rightarrow> string" where
  "get_best_term_name name_cp name_gp name_tg =
     (case find (\<lambda>v. v \<noteq> None) [name_cp, name_gp, name_tg] of
        Some (Some n) \<Rightarrow> n
      | _ \<Rightarrow> ''Unknown'')"

text \<open>\<^verbatim>\<open>(~series.isna()).astype(int)\<close> and \<^verbatim>\<open>series.fillna(False).astype(int)\<close>.\<close>

definition notna_int :: "'a option \<Rightarrow> nat" where
  "notna_int v = (if v = None then 0 else 1)"

definition flag_int :: "bool option \<Rightarrow> nat" where
  "flag_int f = (case f of None \<Rightarrow> 0 | Some b \<Rightarrow> if b then 1 else 0)"

text \<open>
  One row of \<^verbatim>\<open>master_df\<close> after the three merges and the derived columns of lines 135
  to 154, from a term with its partner row, if any, in each standardized table.
\<close>

definition master_row ::
  "((string \<times> cp_std option) \<times> gp_std option) \<times> tg_std option \<Rightarrow> master" where
  "master_row j =
     (case j of
        (((t, c), g), q) \<Rightarrow>
          \<lparr>term_id = t,
           term_name = get_best_term_name (col c cp_term_name) (col g gp_term_name)
                                          (col q tg_term_name),
           methods_significant =
             flag_int (map_option cp_significant c) + flag_int (col g gp_significant)
             + flag_int (map_option tg_significant_flag q),
           methods_total =
             notna_int (col c cp_pvalue) + notna_int (col g gp_pvalue)
             + notna_int (col q tg_pvalue),
           clusterprofiler_pvalue = col c cp_pvalue,
           clusterprofiler_qvalue = col c cp_qvalue,
           clusterprofiler_p_adjust = col c cp_p_adjust,
           clusterprofiler_fold_enrichment = col c cp_fold_enrichment,
           clusterprofiler_gene_count = col c cp_gene_count,
           clusterprofiler_significant = map_option cp_significant c,
           gprofiler2_pvalue = col g gp_pvalue,
           gprofiler2_significant = col g gp_significant,
           gprofiler2_term_size = col g gp_term_size,
           gprofiler2_intersection_size = col g gp_intersection_size,
           gprofiler2_precision = col g gp_precision,
           gprofiler2_recall = col g gp_recall,
           topgo_pvalue = col q tg_pvalue,
           topgo_pvalue_raw = (case q of None \<Rightarrow> Missing | Some r \<Rightarrow> tg_pvalue_raw r),
           topgo_significant_flag = map_option tg_significant_flag q,
           topgo_annotated = col q tg_annotated,
           topgo_significant = col q tg_significant,
           topgo_expected = col q tg_expected,
           clusterprofiler_gene_ids = col c cp_genes,
           term_name_cp = col c cp_term_name,
           term_name_gp = col g gp_term_name,
           term_name_tg = col q tg_term_name,
           clusterprofiler_gene_ratio = col c cp_gene_ratio\<rparr>)"

text \<open>
  Lines 112 to 116: the set \<^verbatim>\<open>all_terms\<close>, held as a list without duplicates.
\<close>

definition all_terms ::
  "cp_std table \<Rightarrow> gp_std table \<Rightarrow> tg_std table \<Rightarrow> string list" where
  "all_terms cp_results gp_results tg_results =
     remdups (dropna (map cp_term_id (table_rows cp_results))
              @ dropna (map gp_term_id (table_rows gp_results))
              @ dropna (map tg_term_id (table_rows tg_results)))"

text \<open>
  Line 121, \<^verbatim>\<open>pd.DataFrame({'term_id': list(all_terms)})\<close>: a column built from a list
  of strings is \<^verbatim>\<open>object\<close>, a column built from the empty list is \<^verbatim>\<open>float64\<close>.
\<close>

definition base_table :: "string list \<Rightarrow> string table" where
  "base_table terms =
     \<lparr>term_id_dtype = (if terms = [] then Float64 else Object), table_rows = terms\<rparr>"

text \<open>
  Lines 121 to 154. \<^verbatim>\<open>list(all_terms)\<close> enumerates a Python set of strings; the order
  is the hash table's, which the language leaves open and which changes from one
  interpreter process to the next (string hashes are salted per process). The parameter
  \<open>set_iter\<close> is that order: it maps the elements of the set to the sequence in which the
  run at hand enumerates them. The result is the exception of the first merge that
  raises, or the rows of \<^verbatim>\<open>master_df\<close>.
\<close>

definition merged_table ::
  "(string list \<Rightarrow> string list) \<Rightarrow> cp_std table \<Rightarrow> gp_std table \<Rightarrow> tg_std table
     \<Rightarrow> error + master list" where
  "merged_table set_iter cp_results gp_results tg_results =
     (let m0 = base_table (set_iter (all_terms cp_results gp_results tg_results))
      in case merge_left m0 Some cp_results cp_term_id of
           Inl e \<Rightarrow> Inl e
         | Inr m1 \<Rightarrow>
             (case merge_left m1 (\<lambda>j. Some (fst j)) gp_results gp_term_id of
                Inl e \<Rightarrow> Inl e
              | Inr m2 \<Rightarrow>
                  (case merge_left m2 (\<lambda>j. Some (fst (fst j))) tg_results tg_term_id of
                     Inl e \<Rightarrow> Inl e
                   | Inr m3 \<Rightarrow> Inr (map master_row (table_rows m3)))))"

section \<open>Sorting\<close>

text \<open>
  Line 180: the row minimum of the three p-value columns, NaN skipped; NaN when all
  three are NaN.
\<close>

definition nanmin :: "num \<Rightarrow> num \<Rightarrow> num" where
  "nanmin a b =
     (case a of
        None \<Rightarrow> b
      | Some x \<Rightarrow> (case b of None \<Rightarrow> a | Some y \<Rightarrow> Some (if fl_le x y then x else y)))"

definition min_pvalue :: "'a out_row_scheme \<Rightarrow> num" where
  "min_pvalue r = nanmin (nanmin (clusterprofiler_pvalue r) (gprofiler2_pvalue r)) (topgo_pvalue r)"

text \<open>Ascending order on a float column with \<^verbatim>\<open>na_position='last'\<close>.\<close>

definition na_last_le :: "num \<Rightarrow> num \<Rightarrow> bool" where
  "na_last_le a b =
     (case b of
        None \<Rightarrow> True
      | Some y \<Rightarrow> (case a of None \<Rightarrow> False | Some x \<Rightarrow> fl_le x y))"

text \<open>
  Lines 181 and 182: \<open>sort_le r r'\<close> says that row \<open>r\<close> does not come after row \<open>r'\<close>
  in the order \<^verbatim>\<open>['methods_significant', 'methods_total', 'min_pvalue']\<close> with
  \<^verbatim>\<open>ascending=[False, False, True]\<close>.
\<close>

definition sort_le :: "out_row \<Rightarrow> out_row \<Rightarrow> bool" where
  "sort_le r r' =
     (methods_significant r > methods_significant r'
      \<or> (methods_significant r = methods_significant r'
          \<and> (methods_total r > methods_total r'
              \<or> (methods_total r = methods_total r'
                  \<and> na_last_le (min_pvalue r) (min_pvalue r')))))"

text \<open>
  \<^verbatim>\<open>sort_values\<close> on several columns is a stable sort (pandas sorts the rows by
  \<^verbatim>\<open>lexsort\<close> on the key columns): rows that tie on every key keep their order. It is
  modelled by the stable insertion sort.
\<close>

fun insort_row :: "out_row \<Rightarrow> out_row list \<Rightarrow> out_row list" where
  "insort_row r [] = [r]"
| "insort_row r (x # xs) = (if sort_le r x then r # x # xs else x # insort_row r xs)"

definition sort_values :: "out_row list \<Rightarrow> out_row list" where
  "sort_values df = foldr insort_row df []"

text \<open>
  Lines 156 to 187: select the final columns, sort, and drop the helper column, which
  the model never stores.
\<close>

definition final_table :: "master list \<Rightarrow> out_row list" where
  "final_table master_df = sort_values (map out_row.truncate master_df)"

section \<open>\<^verbatim>\<open>create_comparison_table\<close>\<close>

text \<open>
  What a run prints: a line of text per \<^verbatim>\<open>print\<close> call, or a table rendered by
  \<^verbatim>\<open>to_string\<close> (the columns shown and the rows, the layout left to pandas).
\<close>

datatype printed = Line string | Table "string list" "out_row list"

text \<open>The decimal digits of a number inside an f-string.\<close>

fun show_nat :: "nat \<Rightarrow> string" where
  "show_nat n =
     (if n < 10 then [char_of (48 + n)]
      else show_nat (n div 10) @ [char_of (48 + n mod 10)])"

declare show_nat.simps [simp del]

text \<open>
  Lines 97 to 187. The result is what was printed and either the exception that ended
  the call (a loader's, or the one of a merge, raised after the four lines on the tables
  loaded are printed) or the table returned. \<open>significance_threshold\<close> is the parameter of that
  name; the body never reads it.
\<close>

definition create_comparison_table ::
  "(string list \<Rightarrow> string list) \<Rightarrow> (rat \<Rightarrow> fl) \<Rightarrow> cp_raw csv \<Rightarrow> gp_raw csv \<Rightarrow> tg_raw csv
     \<Rightarrow> fl \<Rightarrow> printed list \<times> (error + out_row list)" where
  "create_comparison_table set_iter to_float clusterprofiler_file gprofiler2_file topgo_file
                           significance_threshold =
     (let start = [Line ''Loading results from each method...'']
      in case load_clusterprofiler_results to_float clusterprofiler_file of
           Inl e \<Rightarrow> (start, Inl e)
         | Inr cp_results \<Rightarrow>
             (case load_gprofiler2_results gprofiler2_file of
                Inl e \<Rightarrow> (start, Inl e)
              | Inr gp_results \<Rightarrow>
                  (case load_topgo_results to_float topgo_file of
                     Inl e \<Rightarrow> (start, Inl e)
                   | Inr tg_results \<Rightarrow>
                       (start
                        @ [Line (''Loaded '' @ show_nat (length (table_rows cp_results))
                                 @ '' clusterProfiler results''),
                           Line (''Loaded '' @ show_nat (length (table_rows gp_results))
                                 @ '' gprofiler2 results''),
                           Line (''Loaded '' @ show_nat (length (table_rows tg_results))
                                 @ '' topGO results''),
                           Line (''Found ''
                                 @ show_nat (length (all_terms cp_results gp_results tg_results))
                                 @ '' unique terms across all methods'')],
                        case merged_table set_iter cp_results gp_results tg_results of
                          Inl e \<Rightarrow> Inl e
                        | Inr master_df \<Rightarrow> Inr (final_table master_df)))))"

section \<open>\<^verbatim>\<open>main\<close>\<close>

text \<open>
  The four files the program touches, each absent (\<open>None\<close>) or present with its
  content, under the directory \<^verbatim>\<open>results\<close>, whose path is the parameter
  \<open>results_dir\<close>.
\<close>

record filesystem =
  clusterprofiler_csv :: "cp_raw csv option"
  gprofiler2_csv :: "gp_raw csv option"
  topgo_csv :: "tg_raw csv option"
  comparison_table_csv :: "out_row list option"

datatype outcome = Returned | Raised error

record run =
  console :: "printed list"
  outcome :: outcome
  files :: filesystem

definition rule60 :: string where
  "rule60 = replicate 60 (CHR ''='')"

definition count_where :: "(out_row \<Rightarrow> bool) \<Rightarrow> out_row list \<Rightarrow> string" where
  "count_where P df = show_nat (length (filter P df))"

text \<open>Lines 256 to 272: one block per method, printed when it has a row.\<close>

definition method_specific ::
  "string \<Rightarrow> string \<Rightarrow> (out_row \<Rightarrow> bool option) \<Rightarrow> out_row list \<Rightarrow> printed list" where
  "method_specific title pcol flag df =
     (let only = filter (\<lambda>r. flag r = Some True \<and> methods_significant r = 1) df
      in if length only > 0
         then [Line (CHR 0x0A # title @ ''-specific (top 5):''),
               Table [''term_id'', ''term_name'', pcol] (take 5 only)]
         else [])"

text \<open>Lines 220 to 276: the console report after the table is saved.\<close>

definition report :: "string \<Rightarrow> out_row list \<Rightarrow> printed list" where
  "report output_file comparison_df =
     [Line (CHR 0x0A # ''Comparison table saved to: '' @ output_file),
      Line (''Total terms in comparison table: '' @ show_nat (length comparison_df)),
      Line (CHR 0x0A # rule60),
      Line ''SUMMARY STATISTICS'',
      Line rule60,
      Line (''Terms found by all 3 methods: ''
            @ count_where (\<lambda>r. methods_total r = 3) comparison_df),
      Line (''Terms found by 2 methods: ''
            @ count_where (\<lambda>r. methods_total r = 2) comparison_df),
      Line (''Terms found by 1 method: ''
            @ count_where (\<lambda>r. methods_total r = 1) comparison_df),
      Line (CHR 0x0A # ''Terms significant in all 3 methods: ''
            @ count_where (\<lambda>r. methods_significant r = 3) comparison_df),
      Line (''Terms significant in 2 methods: ''
            @ count_where (\<lambda>r. methods_significant r = 2) comparison_df),
      Line (''Terms significant in 1 method: ''
            @ count_where (\<lambda>r. methods_significant r = 1) comparison_df),
      Line (''Terms not significant in any method: ''
            @ count_where (\<lambda>r. methods_significant r = 0) comparison_df),
      Line (CHR 0x0A # rule60),
      Line ''TOP 10 CONSENSUS RESULTS (significant in multiple methods)'',
      Line rule60]
     @ (let consensus_results = take 10 (filter (\<lambda>r. methods_significant r \<ge> 2) comparison_df)
        in if length consensus_results > 0
           then [Table [''term_id'', ''term_name'', ''methods_significant'', ''methods_total'',
                        ''clusterprofiler_pvalue'', ''gprofiler2_pvalue'', ''topgo_pvalue'']
                       consensus_results]
           else [Line ''No terms found significant in multiple methods''])
     @ [Line (CHR 0x0A # rule60),
        Line ''METHOD-SPECIFIC SIGNIFICANT RESULTS (top 5 each)'',
        Line rule60]
     @ method_specific ''clusterProfiler'' ''clusterprofiler_pvalue''
         clusterprofiler_significant comparison_df
     @ method_specific ''gprofiler2'' ''gprofiler2_pvalue''
         gprofiler2_significant comparison_df
     @ method_specific ''topGO'' ''topgo_pvalue''
         topgo_significant_flag comparison_df
     @ [Line (CHR 0x0A # rule60),
        Line ''Analysis complete! Check the output file for the full comparison table.'',
        Line rule60]"

text \<open>
  Lines 189 to 276. The loop of lines 201 to 204 checks the three input paths in order
  and returns at the first one absent; it is unrolled. An exception of
  \<^verbatim>\<open>create_comparison_table\<close> is not caught: it ends the run before line 218 writes
  the output file.
\<close>

definition clusterprofiler_path :: "string \<Rightarrow> string" where
  "clusterprofiler_path results_dir = results_dir @ ''/clusterProfiler_enrichment_results.csv''"

definition gprofiler2_path :: "string \<Rightarrow> string" where
  "gprofiler2_path results_dir = results_dir @ ''/gprofiler2_enrichment_results.csv''"

definition topgo_path :: "string \<Rightarrow> string" where
  "topgo_path results_dir = results_dir @ ''/topGO_enrichment_results.csv''"

definition output_path :: "string \<Rightarrow> string" where
  "output_path results_dir = results_dir @ ''/enrichment_methods_comparison_table.csv''"

definition main ::
  "string \<Rightarrow> (string list \<Rightarrow> string list) \<Rightarrow> (rat \<Rightarrow> fl) \<Rightarrow> filesystem \<Rightarrow> run" where
  "main results_dir set_iter to_float fs =
     (let clusterprofiler_file = clusterprofiler_path results_dir;
          gprofiler2_file = gprofiler2_path results_dir;
          topgo_file = topgo_path results_dir;
          not_found = (\<lambda>file_path.
                         \<lparr>console = [Line (''Error: File not found - '' @ file_path)],
                          outcome = Returned, files = fs\<rparr>)
      in case clusterprofiler_csv fs of
           None \<Rightarrow> not_found clusterprofiler_file
         | Some cp_df \<Rightarrow>
             (case gprofiler2_csv fs of
                None \<Rightarrow> not_found gprofiler2_file
              | Some gp_df \<Rightarrow>
                  (case topgo_csv fs of
                     None \<Rightarrow> not_found topgo_file
                   | Some tg_df \<Rightarrow>
                       (let banner = [Line ''Creating comprehensive enrichment comparison table...'',
                                      Line rule60]
                        in case create_comparison_table set_iter to_float cp_df gp_df tg_df
                                  (to_float (1 / 20)) of
                             (out, Inl e) \<Rightarrow>
                               \<lparr>console = banner @ out, outcome = Raised e, files = fs\<rparr>
                           | (out, Inr comparison_df) \<Rightarrow>
                               (let output_file = output_path results_dir
                                in \<lparr>console = banner @ out @ report output_file comparison_df,
                                    outcome = Returned,
                                    files = fs\<lparr>comparison_table_csv := Some comparison_df\<rparr>\<rparr>)))))"

section \<open>Notions used in the statements\<close>

text \<open>
  An enumeration order of a set: whatever the elements, \<open>set_iter\<close> yields each of them
  once. Every order in which Python can list a set is of this kind.
\<close>

definition enumerates :: "(string list \<Rightarrow> string list) \<Rightarrow> bool" where
  "enumerates set_iter = (\<forall>xs. mset (set_iter xs) = mset xs)"

text \<open>
  The rows of \<^verbatim>\<open>master_df\<close> when none of the three merges raises.
\<close>

definition master_rows ::
  "(string list \<Rightarrow> string list) \<Rightarrow> cp_std table \<Rightarrow> gp_std table \<Rightarrow> tg_std table
     \<Rightarrow> master list" where
  "master_rows set_iter cp_results gp_results tg_results =
     map master_row
       (joined_rows
          (joined_rows
             (joined_rows (set_iter (all_terms cp_results gp_results tg_results)) Some
                (table_rows cp_results) cp_term_id)
             (\<lambda>j. Some (fst j)) (table_rows gp_results) gp_term_id)
          (\<lambda>j. Some (fst (fst j))) (table_rows tg_results) tg_term_id)"

text \<open>The three sort keys of a row, as line 181 lists them.\<close>

definition sort_cols :: "out_row \<Rightarrow> nat \<times> nat \<times> num" where
  "sort_cols r = (methods_significant r, methods_total r, min_pvalue r)"

text \<open>
  The order \<open>sort_le\<close> is the lexicographic order of these codes of the sort keys:
  the counts negated, the floats in their order with NaN above them all.
\<close>

definition num_enc :: "num \<Rightarrow> nat \<times> rat" where
  "num_enc v =
     (case v of
        None \<Rightarrow> (3, 0)
      | Some NegInf \<Rightarrow> (0, 0)
      | Some (Fin q) \<Rightarrow> (1, q)
      | Some PosInf \<Rightarrow> (2, 0))"

definition cols_enc :: "nat \<times> nat \<times> num \<Rightarrow> int \<times> int \<times> nat \<times> rat" where
  "cols_enc k = (case k of (s, t, p) \<Rightarrow> (- int s, - int t, num_enc p))"

definition sort_enc :: "out_row \<Rightarrow> int \<times> int \<times> nat \<times> rat" where
  "sort_enc r = cols_enc (sort_cols r)"

text \<open>
  The number of methods that report a term, in the words of the specification ("count
  of methods reporting the term") and not of the code: the number of standardized tables
  with a row for it, whatever the cells of that row hold.
\<close>

definition methods_reporting ::
  "cp_std table \<Rightarrow> gp_std table \<Rightarrow> tg_std table \<Rightarrow> string \<Rightarrow> nat" where
  "methods_reporting cp_results gp_results tg_results t =
     (if Some t \<in> set (map cp_term_id (table_rows cp_results)) then 1 else 0)
     + (if Some t \<in> set (map gp_term_id (table_rows gp_results)) then 1 else 0)
     + (if Some t \<in> set (map tg_term_id (table_rows tg_results)) then 1 else 0)"

section \<open>Sample inputs\<close>

text \<open>
  Three small result files. clusterProfiler reports \<^verbatim>\<open>GO:0001\<close> (q-value 0.01) and
  \<^verbatim>\<open>GO:0002\<close>; gprofiler2 reports \<^verbatim>\<open>GO:0002\<close> and a KEGG pathway, which the loader
  filters out; topGO reports \<^verbatim>\<open>GO:0001\<close> (p-value 0.2) and \<^verbatim>\<open>GO:0003\<close>.
\<close>

definition cp_example :: "cp_raw csv" where
  "cp_example =
     \<lparr>header = cp_columns,
      rows = [\<lparr>cpf_ID = Some ''GO:0001'', cpf_Description = Some ''alpha'',
               cpf_pvalue = Some (Fin (1 / 1000)), cpf_qvalue = Some (Fin (1 / 100)),
               cpf_p_adjust = Some (Fin (1 / 100)), cpf_FoldEnrichment = Some (Fin 3),
               cpf_Count = Some (Fin 5), cpf_GeneRatio = Some ''5/100'',
               cpf_geneID = Some ''A/B/C/D/E''\<rparr>,
              \<lparr>cpf_ID = Some ''GO:0002'', cpf_Description = Some ''beta'',
               cpf_pvalue = Some (Fin (1 / 2)), cpf_qvalue = Some (Fin (3 / 5)),
               cpf_p_adjust = Some (Fin (3 / 5)), cpf_FoldEnrichment = Some (Fin 1),
               cpf_Count = Some (Fin 2), cpf_GeneRatio = Some ''2/100'',
               cpf_geneID = Some ''A/B''\<rparr>]\<rparr>"

definition gp_example :: "gp_raw csv" where
  "gp_example =
     \<lparr>header = ''source'' # gp_columns,
      rows = [\<lparr>gpf_source = Some ''GO:BP'', gpf_term_id = Some ''GO:0002'',
               gpf_term_name = Some ''beta'', gpf_p_value = Some (Fin (3 / 100)),
               gpf_significant = Some True, gpf_term_size = Some (Fin 40),
               gpf_intersection_size = Some (Fin 4), gpf_precision = Some (Fin (1 / 10)),
               gpf_recall = Some (Fin (1 / 10))\<rparr>,
              \<lparr>gpf_source = Some ''KEGG'', gpf_term_id = Some ''KEGG:04110'',
               gpf_term_name = Some ''cell cycle'', gpf_p_value = Some (Fin (1 / 100)),
               gpf_significant = Some True, gpf_term_size = Some (Fin 30),
               gpf_intersection_size = Some (Fin 3), gpf_precision = Some (Fin (1 / 10)),
               gpf_recall = Some (Fin (1 / 10))\<rparr>]\<rparr>"

definition tg_example :: "tg_raw csv" where
  "tg_example =
     \<lparr>header = tg_columns,
      rows = [\<lparr>tgf_GO_ID = Some ''GO:0001'', tgf_Term = Some ''alpha'',
               tgf_fisher = Text ''0.2'', tgf_Annotated = Some (Fin 100),
               tgf_Significant = Some (Fin 5), tgf_Expected = Some (Fin 2)\<rparr>,
              \<lparr>tgf_GO_ID = Some ''GO:0003'', tgf_Term = Some ''gamma'',
               tgf_fisher = Text ''< 1e-30'', tgf_Annotated = Some (Fin 50),
               tgf_Significant = Some (Fin 20), tgf_Expected = Some (Fin 1)\<rparr>]\<rparr>"

text \<open>
  A clusterProfiler file with two other terms, which have the same p-value and q-value:
  next to \<open>gp_example\<close> and \<open>tg_example\<close>, only clusterProfiler reports them, and
  their rows tie on all three sort keys.
\<close>

definition cp_ties :: "cp_raw csv" where
  "cp_ties =
     \<lparr>header = cp_columns,
      rows = [\<lparr>cpf_ID = Some ''GO:0004'', cpf_Description = Some ''delta'',
               cpf_pvalue = Some (Fin (1 / 2)), cpf_qvalue = Some (Fin (3 / 5)),
               cpf_p_adjust = Some (Fin (3 / 5)), cpf_FoldEnrichment = Some (Fin 1),
               cpf_Count = Some (Fin 2), cpf_GeneRatio = Some ''2/100'',
               cpf_geneID = Some ''A/B''\<rparr>,
              \<lparr>cpf_ID = Some ''GO:0005'', cpf_Description = Some ''epsilon'',
               cpf_pvalue = Some (Fin (1 / 2)), cpf_qvalue = Some (Fin (3 / 5)),
               cpf_p_adjust = Some (Fin (3 / 5)), cpf_FoldEnrichment = Some (Fin 1),
               cpf_Count = Some (Fin 2), cpf_GeneRatio = Some ''2/100'',
               cpf_geneID = Some ''A/B''\<rparr>]\<rparr>"

text \<open>
  A topGO file whose one term has an empty \<^verbatim>\<open>fisher\<close> cell, and a clusterProfiler
  file without the column \<^verbatim>\<open>qvalue\<close>.
\<close>

definition tg_no_pvalue :: "tg_raw csv" where
  "tg_no_pvalue =
     \<lparr>header = tg_columns,
      rows = [\<lparr>tgf_GO_ID = Some ''GO:0003'', tgf_Term = Some ''gamma'',
               tgf_fisher = Missing, tgf_Annotated = Some (Fin 50),
               tgf_Significant = Some (Fin 20), tgf_Expected = Some (Fin 1)\<rparr>]\<rparr>"

definition cp_no_qvalue :: "cp_raw csv" where
  "cp_no_qvalue = cp_example\<lparr>header := filter (\<lambda>c. c \<noteq> ''qvalue'') cp_columns\<rparr>"

text \<open>
  Files with a full header and no data row, and a topGO file whose one row has an empty
  \<^verbatim>\<open>GO.ID\<close> cell.
\<close>

definition cp_header_only :: "cp_raw csv" where
  "cp_header_only = \<lparr>header = cp_columns, rows = []\<rparr>"

definition gp_header_only :: "gp_raw csv" where
  "gp_header_only = \<lparr>header = ''source'' # gp_columns, rows = []\<rparr>"

definition tg_header_only :: "tg_raw csv" where
  "tg_header_only = \<lparr>header = tg_columns, rows = []\<rparr>"

definition tg_no_id :: "tg_raw csv" where
  "tg_no_id =
     \<lparr>header = tg_columns,
      rows = [\<lparr>tgf_GO_ID = None, tgf_Term = Some ''gamma'',
               tgf_fisher = Text ''0.2'', tgf_Annotated = Some (Fin 50),
               tgf_Significant = Some (Fin 20), tgf_Expected = Some (Fin 1)\<rparr>]\<rparr>"

definition fs_example :: filesystem where
  "fs_example =
     \<lparr>clusterprofiler_csv = Some cp_example, gprofiler2_csv = Some gp_example,
      topgo_csv = Some tg_example, comparison_table_csv = None\<rparr>"

section \<open>Evaluation rules\<close>

lemmas float_defs = parse_p_value_def drop_less_def strip_def is_space_def py_float_def
  sign_def lower_def mantissa_def digitpart_def digit_of_def exponent_def decimal_value_def
  digits_value_def

lemmas loader_defs = load_clusterprofiler_results_def load_gprofiler2_results_def
  load_topgo_results_def first_missing_def cp_columns_def gp_columns_def tg_columns_def
  num_less_def fl_less_def

lemmas table_defs = create_comparison_table_def final_table_def merged_table_def
  all_terms_def base_table_def merge_left_def keys_clash_def merge_message_def dtype_name_def
  key_dtype_def joined_rows_def master_row_def col_def get_best_term_name_def notna_int_def
  flag_int_def sort_values_def sort_le_def min_pvalue_def nanmin_def na_last_le_def
  out_row.truncate_def

section \<open>The order on floats\<close>

lemma fl_le_refl: "fl_le x x"
  by (cases x) auto

lemma fl_le_total: "fl_le x y \<or> fl_le y x"
  by (cases x; cases y) auto

lemma fl_le_trans: "fl_le x y \<Longrightarrow> fl_le y z \<Longrightarrow> fl_le x z"
  by (cases x; cases y; cases z) auto

lemma fl_le_enc: "fl_le x y \<longleftrightarrow> num_enc (Some x) \<le> num_enc (Some y)"
  by (cases x; cases y) (auto simp: num_enc_def)

lemma na_last_le_enc: "na_last_le a b \<longleftrightarrow> num_enc a \<le> num_enc b"
proof (cases b)
  case None
  then show ?thesis
    by (cases a) (auto simp: na_last_le_def num_enc_def split: fl.splits)
next
  case b: (Some y)
  show ?thesis
  proof (cases a)
    case None
    then show ?thesis
      using b by (auto simp: na_last_le_def num_enc_def split: fl.splits)
  next
    case (Some x)
    then show ?thesis
      using b by (simp add: na_last_le_def fl_le_enc)
  qed
qed

lemma num_enc_inj: "num_enc a = num_enc b \<Longrightarrow> a = b"
  by (auto simp: num_enc_def split: option.splits fl.splits)

lemma inj_cols_enc: "inj cols_enc"
  by (rule injI) (auto simp: cols_enc_def dest: num_enc_inj split: prod.splits)

section \<open>The minimum p-value of a row\<close>

lemma nanmin_Some:
  assumes "nanmin a b = Some m"
  shows "(a = Some m \<or> b = Some m) \<and> (\<forall>x. a = Some x \<or> b = Some x \<longrightarrow> fl_le m x)"
proof (cases a)
  case None
  with assms show ?thesis by (auto simp: nanmin_def fl_le_refl)
next
  case a: (Some x)
  show ?thesis
  proof (cases b)
    case None
    with assms a show ?thesis by (auto simp: nanmin_def fl_le_refl)
  next
    case (Some y)
    with assms a fl_le_total[of x y] show ?thesis
      by (auto simp: nanmin_def fl_le_refl split: if_splits)
  qed
qed

lemma min_pvalue_missing:
  "min_pvalue r = None \<longleftrightarrow>
     clusterprofiler_pvalue r = None \<and> gprofiler2_pvalue r = None \<and> topgo_pvalue r = None"
  by (auto simp: min_pvalue_def nanmin_def split: option.splits)

lemma min_pvalue_least:
  assumes "min_pvalue r = Some m"
  shows "Some m \<in> {clusterprofiler_pvalue r, gprofiler2_pvalue r, topgo_pvalue r}
         \<and> (\<forall>x. Some x \<in> {clusterprofiler_pvalue r, gprofiler2_pvalue r, topgo_pvalue r}
                \<longrightarrow> fl_le m x)"
proof -
  obtain a where a: "a = nanmin (clusterprofiler_pvalue r) (gprofiler2_pvalue r)" by simp
  from assms have m: "nanmin a (topgo_pvalue r) = Some m" by (simp add: min_pvalue_def a)
  from nanmin_Some[OF m] have m1: "a = Some m \<or> topgo_pvalue r = Some m"
    and m2: "\<And>x. a = Some x \<or> topgo_pvalue r = Some x \<Longrightarrow> fl_le m x" by blast+
  show ?thesis
  proof (cases a)
    case None
    then have "clusterprofiler_pvalue r = None" "gprofiler2_pvalue r = None"
      using a by (auto simp: nanmin_def split: option.splits)
    with m1 m2 None show ?thesis by auto
  next
    case (Some y)
    from nanmin_Some[OF Some[unfolded a]]
    have y1: "clusterprofiler_pvalue r = Some y \<or> gprofiler2_pvalue r = Some y"
      and y2: "\<And>x. clusterprofiler_pvalue r = Some x \<or> gprofiler2_pvalue r = Some x
                 \<Longrightarrow> fl_le y x" by blast+
    have "fl_le m y" using m2 Some by blast
    then have "fl_le m x" if "clusterprofiler_pvalue r = Some x \<or> gprofiler2_pvalue r = Some x"
      for x using y2[OF that] fl_le_trans by blast
    with m1 m2 y1 Some show ?thesis by auto
  qed
qed

section \<open>The sort\<close>

lemma sort_le_enc: "sort_le r r' \<longleftrightarrow> sort_enc r \<le> sort_enc r'"
  by (auto simp: sort_le_def sort_enc_def sort_cols_def cols_enc_def na_last_le_enc)

lemma insort_row_eq: "insort_row r xs = insort_key sort_enc r xs"
  by (induction xs) (simp_all add: sort_le_enc)

lemma sort_values_eq: "sort_values xs = sort_key sort_enc xs"
proof -
  have "insort_row = insort_key sort_enc" by (intro ext) (rule insort_row_eq)
  then show ?thesis by (simp add: sort_values_def sort_key_def)
qed

lemma mset_sort_values: "mset (sort_values xs) = mset xs"
  by (simp add: sort_values_eq)

lemma sorted_sort_values: "sorted (map sort_enc (sort_values xs))"
  by (simp add: sort_values_eq)

lemma sorted_adjacent:
  assumes "Suc i < length (sort_values xs)"
  shows "sort_le (sort_values xs ! i) (sort_values xs ! Suc i)"
proof -
  have "sorted (map sort_enc (sort_values xs))" by (rule sorted_sort_values)
  then have "map sort_enc (sort_values xs) ! i \<le> map sort_enc (sort_values xs) ! Suc i"
    using assms by (intro sorted_nth_mono) simp_all
  then show ?thesis using assms by (simp add: sort_le_enc)
qed

text \<open>Two sorted tables with the same rows show the same sequence of sort keys.\<close>

lemma sort_values_keys:
  assumes "mset xs = mset ys"
  shows "map sort_cols (sort_values xs) = map sort_cols (sort_values ys)"
proof -
  let ?a = "map sort_enc (sort_values xs)" and ?b = "map sort_enc (sort_values ys)"
  have "mset ?a = mset ?b" using assms by (simp add: mset_sort_values)
  moreover have "sorted ?a" "sorted ?b" by (rule sorted_sort_values)+
  ultimately have "?a = ?b" by (metis properties_for_sort)
  moreover have "map sort_enc zs = map cols_enc (map sort_cols zs)" for zs
    by (simp add: sort_enc_def)
  ultimately have "map cols_enc (map sort_cols (sort_values xs))
               = map cols_enc (map sort_cols (sort_values ys))"
    by simp
  then show ?thesis using inj_cols_enc by (simp only: inj_map_eq_map)
qed

text \<open>
  Two tables with the same rows and the same sequence of keys are the same table when
  no key occurs twice.
\<close>

lemma same_rows_same_keys:
  assumes "mset xs = mset ys" and "map f xs = map f ys" and "distinct (map f xs)"
  shows "xs = ys"
proof (rule nth_equalityI)
  from assms(2) have "length (map f xs) = length (map f ys)" by simp
  then show len: "length xs = length ys" by simp
  fix i assume i: "i < length xs"
  with len have "ys ! i \<in> set ys" by simp
  also have "set ys = set xs" using assms(1) by (metis mset_eq_setD)
  finally obtain j where j: "j < length xs" "xs ! j = ys ! i"
    by (auto simp: in_set_conv_nth)
  have "map f xs ! j = f (ys ! i)" using j by simp
  also have "\<dots> = map f ys ! i" using i len by simp
  also have "\<dots> = map f xs ! i" by (simp only: assms(2))
  finally have same: "map f xs ! j = map f xs ! i" .
  have "(map f xs ! j = map f xs ! i) = (j = i)"
    using assms(3) i j(1) by (intro nth_eq_iff_index_eq) simp_all
  with same have "j = i" by simp
  with j(2) show "xs ! i = ys ! i" by simp
qed

section \<open>The merges\<close>

lemma set_dropna: "set (dropna xs) = {x. Some x \<in> set xs}"
  by (induction xs rule: dropna.induct) auto

lemma distinct_dropna: "distinct xs \<Longrightarrow> distinct (dropna xs)"
  by (induction xs rule: dropna.induct) (auto simp: set_dropna)

lemma filter_key_unique:
  assumes "distinct (dropna (map rkey right))"
  shows "length (filter (\<lambda>r. rkey r = Some k) right) \<le> 1"
  using assms
proof (induction right)
  case Nil
  then show ?case by simp
next
  case (Cons r rs)
  show ?case
  proof (cases "rkey r = Some k")
    case True
    with Cons.prems have "k \<notin> set (dropna (map rkey rs))" by simp
    then have "filter (\<lambda>r. rkey r = Some k) rs = []"
      by (force simp: set_dropna filter_empty_conv image_iff)
    with True show ?thesis by simp
  next
    case False
    moreover from Cons.prems have "distinct (dropna (map rkey rs))"
      by (cases "rkey r") auto
    ultimately show ?thesis using Cons.IH by simp
  qed
qed

lemma joined_rows_unique:
  assumes "distinct (dropna (map rkey right))"
  shows "map fst (joined_rows left (\<lambda>l. Some (k l)) right rkey) = left"
proof -
  have one: "map fst (case filter (\<lambda>r. rkey r = Some (k l)) right of
                        [] \<Rightarrow> [(l, None)]
                      | ms \<Rightarrow> map (\<lambda>r. (l, Some r)) ms) = [l]" for l
  proof -
    have "length (filter (\<lambda>r. rkey r = Some (k l)) right) \<le> 1"
      using assms by (rule filter_key_unique)
    then show ?thesis
      by (cases "filter (\<lambda>r. rkey r = Some (k l)) right") (auto simp: le_Suc_eq)
  qed
  show ?thesis
    unfolding joined_rows_def
    by (induction left) (simp_all add: one)
qed

lemma mset_joined_rows:
  assumes "mset left = mset left'"
  shows "mset (joined_rows left lkey right rkey) = mset (joined_rows left' lkey right rkey)"
proof -
  have "mset (concat (map f xs)) = (\<Sum>x\<in>#mset xs. mset (f x))" for f :: "'a \<Rightarrow> ('a \<times> 'b option) list" and xs
    by (induction xs) simp_all
  then show ?thesis using assms by (simp add: joined_rows_def)
qed

text \<open>A left merge has a row exactly when its left table has one.\<close>

lemma joined_rows_empty: "joined_rows left lkey right rkey = [] \<longleftrightarrow> left = []"
proof (cases left)
  case Nil
  then show ?thesis by (simp add: joined_rows_def)
next
  case (Cons l ls)
  then show ?thesis
    by (cases "filter (\<lambda>r. rkey r = lkey l) right") (simp_all add: joined_rows_def)
qed

lemma term_id_master_row: "term_id (master_row j) = fst (fst (fst j))"
  by (simp add: master_row_def split: prod.splits)

lemma master_rows_term_ids:
  assumes "distinct (dropna (map cp_term_id (table_rows cp)))"
      and "distinct (dropna (map gp_term_id (table_rows gp)))"
      and "distinct (dropna (map tg_term_id (table_rows tg)))"
  shows "map term_id (master_rows set_iter cp gp tg) = set_iter (all_terms cp gp tg)"
proof -
  let ?m0 = "set_iter (all_terms cp gp tg)"
  let ?m1 = "joined_rows ?m0 Some (table_rows cp) cp_term_id"
  let ?m2 = "joined_rows ?m1 (\<lambda>j. Some (fst j)) (table_rows gp) gp_term_id"
  let ?m3 = "joined_rows ?m2 (\<lambda>j. Some (fst (fst j))) (table_rows tg) tg_term_id"
  have 1: "map fst ?m1 = ?m0" using assms(1) by (rule joined_rows_unique)
  have 2: "map fst ?m2 = ?m1" using assms(2) by (rule joined_rows_unique)
  have 3: "map fst ?m3 = ?m2" using assms(3) by (rule joined_rows_unique)
  have "map term_id (map master_row ?m3) = map fst (map fst (map fst ?m3))"
    by (simp add: term_id_master_row comp_def)
  also have "\<dots> = ?m0" by (simp only: 1 2 3)
  finally show ?thesis by (simp add: master_rows_def)
qed

lemma mset_master_rows:
  assumes "enumerates it1" and "enumerates it2"
  shows "mset (master_rows it1 cp gp tg) = mset (master_rows it2 cp gp tg)"
proof -
  have "mset (it1 (all_terms cp gp tg)) = mset (it2 (all_terms cp gp tg))"
    using assms by (simp add: enumerates_def)
  then have "mset (joined_rows (it1 (all_terms cp gp tg)) Some (table_rows cp) cp_term_id)
               = mset (joined_rows (it2 (all_terms cp gp tg)) Some (table_rows cp) cp_term_id)"
    by (rule mset_joined_rows)
  then have "mset (joined_rows (joined_rows (it1 (all_terms cp gp tg)) Some (table_rows cp)
                                  cp_term_id)
                     (\<lambda>j. Some (fst j)) (table_rows gp) gp_term_id)
               = mset (joined_rows (joined_rows (it2 (all_terms cp gp tg)) Some (table_rows cp)
                                      cp_term_id)
                     (\<lambda>j. Some (fst j)) (table_rows gp) gp_term_id)"
    by (rule mset_joined_rows)
  then have "mset (joined_rows (joined_rows (joined_rows (it1 (all_terms cp gp tg)) Some
                     (table_rows cp) cp_term_id)
                     (\<lambda>j. Some (fst j)) (table_rows gp) gp_term_id)
                     (\<lambda>j. Some (fst (fst j))) (table_rows tg) tg_term_id)
               = mset (joined_rows (joined_rows (joined_rows (it2 (all_terms cp gp tg)) Some
                     (table_rows cp) cp_term_id)
                     (\<lambda>j. Some (fst j)) (table_rows gp) gp_term_id)
                     (\<lambda>j. Some (fst (fst j))) (table_rows tg) tg_term_id)"
    by (rule mset_joined_rows)
  then have "image_mset master_row (mset (joined_rows (joined_rows (joined_rows
                  (it1 (all_terms cp gp tg)) Some (table_rows cp) cp_term_id)
                     (\<lambda>j. Some (fst j)) (table_rows gp) gp_term_id)
                     (\<lambda>j. Some (fst (fst j))) (table_rows tg) tg_term_id))
               = image_mset master_row (mset (joined_rows (joined_rows (joined_rows
                  (it2 (all_terms cp gp tg)) Some (table_rows cp) cp_term_id)
                     (\<lambda>j. Some (fst j)) (table_rows gp) gp_term_id)
                     (\<lambda>j. Some (fst (fst j))) (table_rows tg) tg_term_id))"
    by (rule arg_cong)
  then show ?thesis
    by (simp add: master_rows_def)
qed

text \<open>
  The merged table is the exception of the first merge whose keys clash with those of the
  base table, or the rows \<open>master_rows\<close>: a merge leaves the dtype of the key column and
  the emptiness of the table as they are.
\<close>

lemma merged_table_eq:
  "merged_table set_iter cp gp tg =
     (if keys_clash (base_table (set_iter (all_terms cp gp tg))) cp
      then Inl (ValueError (merge_message
                  (term_id_dtype (base_table (set_iter (all_terms cp gp tg)))) (term_id_dtype cp)))
      else if keys_clash (base_table (set_iter (all_terms cp gp tg))) gp
      then Inl (ValueError (merge_message
                  (term_id_dtype (base_table (set_iter (all_terms cp gp tg)))) (term_id_dtype gp)))
      else if keys_clash (base_table (set_iter (all_terms cp gp tg))) tg
      then Inl (ValueError (merge_message
                  (term_id_dtype (base_table (set_iter (all_terms cp gp tg)))) (term_id_dtype tg)))
      else Inr (master_rows set_iter cp gp tg))"
  by (simp add: merged_table_def merge_left_def keys_clash_def base_table_def master_rows_def
      joined_rows_empty Let_def)

lemma base_table_enumerated:
  assumes "enumerates set_iter"
  shows "keys_clash (base_table (set_iter xs)) t = keys_clash (base_table xs) t"
    and "term_id_dtype (base_table (set_iter xs)) = term_id_dtype (base_table xs)"
proof -
  from assms have "mset (set_iter xs) = mset xs" by (simp add: enumerates_def)
  then have "(set_iter xs = []) = (xs = [])" by (metis mset_zero_iff)
  then show "keys_clash (base_table (set_iter xs)) t = keys_clash (base_table xs) t"
    and "term_id_dtype (base_table (set_iter xs)) = term_id_dtype (base_table xs)"
    by (simp_all add: keys_clash_def base_table_def)
qed

lemma merged_table_Inr:
  assumes "merged_table set_iter cp gp tg = Inr ms"
  shows "ms = master_rows set_iter cp gp tg"
  using assms by (simp add: merged_table_eq split: if_splits)

section \<open>The final table\<close>

lemma term_id_truncate: "term_id (out_row.truncate m) = term_id m"
  by (simp add: out_row.truncate_def)

lemma final_table_term_ids:
  "mset (map term_id (final_table ms)) = mset (map term_id ms)"
proof -
  have "mset (map term_id (final_table ms)) = image_mset term_id (mset (final_table ms))"
    by simp
  also have "\<dots> = image_mset term_id (mset (map out_row.truncate ms))"
    by (simp add: final_table_def mset_sort_values)
  also have "\<dots> = mset (map term_id ms)"
    by (simp add: term_id_truncate multiset.map_comp comp_def)
  finally show ?thesis .
qed

lemma final_table_rows:
  assumes "r \<in> set (final_table ms)"
  shows "\<exists>m\<in>set ms. r = out_row.truncate m"
proof -
  have "set (final_table ms) = set (map out_row.truncate ms)"
    unfolding final_table_def by (rule mset_eq_setD) (rule mset_sort_values)
  with assms show ?thesis by auto
qed

lemma set_all_terms:
  "set (all_terms cp gp tg)
     = set (dropna (map cp_term_id (table_rows cp)))
       \<union> set (dropna (map gp_term_id (table_rows gp)))
       \<union> set (dropna (map tg_term_id (table_rows tg)))"
  by (auto simp: all_terms_def)

lemma create_comparison_table_result:
  assumes "load_clusterprofiler_results to_float f1 = Inr cp"
      and "load_gprofiler2_results f2 = Inr gp"
      and "load_topgo_results to_float f3 = Inr tg"
  shows "snd (create_comparison_table set_iter to_float f1 f2 f3 thr)
           = (case merged_table set_iter cp gp tg of
                Inl e \<Rightarrow> Inl e
              | Inr master_df \<Rightarrow> Inr (final_table master_df))"
  using assms by (simp add: create_comparison_table_def)

lemma create_comparison_table_Inr:
  assumes "snd (create_comparison_table set_iter to_float f1 f2 f3 thr) = Inr out"
  shows "\<exists>cp gp tg. load_clusterprofiler_results to_float f1 = Inr cp
            \<and> load_gprofiler2_results f2 = Inr gp
            \<and> load_topgo_results to_float f3 = Inr tg
            \<and> merged_table set_iter cp gp tg = Inr (master_rows set_iter cp gp tg)
            \<and> out = final_table (master_rows set_iter cp gp tg)"
proof (cases "load_clusterprofiler_results to_float f1")
  case (Inl e)
  with assms show ?thesis by (simp add: create_comparison_table_def)
next
  case cp: (Inr cp)
  show ?thesis
  proof (cases "load_gprofiler2_results f2")
    case (Inl e)
    with assms cp show ?thesis by (simp add: create_comparison_table_def)
  next
    case gp: (Inr gp)
    show ?thesis
    proof (cases "load_topgo_results to_float f3")
      case (Inl e)
      with assms cp gp show ?thesis by (simp add: create_comparison_table_def)
    next
      case tg: (Inr tg)
      from assms have r: "(case merged_table set_iter cp gp tg of
                Inl e \<Rightarrow> Inl e
              | Inr master_df \<Rightarrow> Inr (final_table master_df)) = Inr out"
        by (simp only: create_comparison_table_result[OF cp gp tg])
      show ?thesis
      proof (cases "merged_table set_iter cp gp tg")
        case (Inl e)
        with r show ?thesis by simp
      next
        case (Inr ms)
        then have "ms = master_rows set_iter cp gp tg" by (rule merged_table_Inr)
        with Inr r cp gp tg show ?thesis by auto
      qed
    qed
  qed
qed

section \<open>The sample inputs, loaded\<close>

lemma cp_example_loaded:
  "\<exists>cp. load_clusterprofiler_results Fin cp_example = Inr cp
        \<and> dropna (map cp_term_id (table_rows cp)) = [''GO:0001'', ''GO:0002'']
        \<and> term_id_dtype cp = Object \<and> table_rows cp \<noteq> []"
  by (simp add: loader_defs key_dtype_def cp_example_def)

lemma gp_example_loaded:
  "\<exists>gp. load_gprofiler2_results gp_example = Inr gp
        \<and> dropna (map gp_term_id (table_rows gp)) = [''GO:0002'']
        \<and> term_id_dtype gp = Object \<and> table_rows gp \<noteq> []"
  by (simp add: loader_defs key_dtype_def gp_example_def)

lemma tg_example_loaded:
  "\<exists>tg. load_topgo_results Fin tg_example = Inr tg
        \<and> dropna (map tg_term_id (table_rows tg)) = [''GO:0001'', ''GO:0003'']
        \<and> term_id_dtype tg = Object \<and> table_rows tg \<noteq> []"
  by (simp add: loader_defs key_dtype_def tg_example_def float_defs)

lemma example_table:
  "\<exists>out. snd (create_comparison_table id Fin cp_example gp_example tg_example (Fin (1 / 20)))
            = Inr out
     \<and> map term_id out = [''GO:0001'', ''GO:0002'', ''GO:0003'']
     \<and> map methods_significant out = [1, 1, 1]
     \<and> map methods_total out = [2, 2, 1]
     \<and> map min_pvalue out
         = [Some (Fin (1 / 1000)), Some (Fin (3 / 100)), Some (Fin (1 / 10 ^ 30))]"
  by (simp add: table_defs loader_defs float_defs cp_example_def gp_example_def
      tg_example_def)

lemma enumerates_id: "enumerates id"
  by (simp add: enumerates_def)

lemma enumerates_rev: "enumerates rev"
  by (simp add: enumerates_def)

section \<open>Claims about the merged table\<close>

text \<open>
  The two inputs at which a merge refuses the keys: three files without a data row,
  where the empty base table has a \<^verbatim>\<open>float64\<close> key and the empty clusterProfiler table
  an \<^verbatim>\<open>object\<close> key (line 124), and a topGO file whose identifiers are all missing,
  a \<^verbatim>\<open>float64\<close> key against the \<^verbatim>\<open>object\<close> key of the base table (line 126).
\<close>

lemma header_only_files_raise:
  "snd (create_comparison_table id Fin cp_header_only gp_header_only tg_header_only
          (Fin (1 / 20)))
     = Inl (ValueError ''You are trying to merge on float64 and object columns'')"
  by (simp add: table_defs loader_defs cp_header_only_def gp_header_only_def
      tg_header_only_def)

lemma missing_identifiers_raise:
  "snd (create_comparison_table id Fin cp_example gp_example tg_no_id (Fin (1 / 20)))
     = Inl (ValueError ''You are trying to merge on object and float64 columns'')"
  by (simp add: table_defs loader_defs float_defs cp_example_def gp_example_def tg_no_id_def)

text \<open>
  C1. When no term identifier occurs twice in a standardized table, every table that
  \<^verbatim>\<open>create_comparison_table\<close> returns has one row per term: its \<open>term_id\<close> column has
  no duplicate, and its identifiers are the non-missing identifiers of the three tables,
  no more and no fewer. (Uniqueness is asked of the non-missing identifiers only.) The
  call returns a table exactly when none of the three merges refuses the key dtypes,
  that is, when the key column of no standardized table clashes with that of the base
  table; otherwise it raises the \<^verbatim>\<open>ValueError\<close> of the merge and returns no table.
\<close>

theorem one_row_per_term:
  assumes "load_clusterprofiler_results to_float f1 = Inr cp"
      and "load_gprofiler2_results f2 = Inr gp"
      and "load_topgo_results to_float f3 = Inr tg"
      and "distinct (dropna (map cp_term_id (table_rows cp)))"
      and "distinct (dropna (map gp_term_id (table_rows gp)))"
      and "distinct (dropna (map tg_term_id (table_rows tg)))"
      and "enumerates set_iter"
  shows "(\<forall>out. snd (create_comparison_table set_iter to_float f1 f2 f3 thr) = Inr out
            \<longrightarrow> distinct (map term_id out)
                \<and> set (map term_id out)
                    = set (dropna (map cp_term_id (table_rows cp)))
                      \<union> set (dropna (map gp_term_id (table_rows gp)))
                      \<union> set (dropna (map tg_term_id (table_rows tg))))
         \<and> ((\<exists>out. snd (create_comparison_table set_iter to_float f1 f2 f3 thr) = Inr out)
              \<longleftrightarrow> \<not> keys_clash (base_table (all_terms cp gp tg)) cp
                  \<and> \<not> keys_clash (base_table (all_terms cp gp tg)) gp
                  \<and> \<not> keys_clash (base_table (all_terms cp gp tg)) tg)
         \<and> ((\<exists>m. snd (create_comparison_table set_iter to_float f1 f2 f3 thr)
                     = Inl (ValueError m))
              \<longleftrightarrow> keys_clash (base_table (all_terms cp gp tg)) cp
                  \<or> keys_clash (base_table (all_terms cp gp tg)) gp
                  \<or> keys_clash (base_table (all_terms cp gp tg)) tg)"
proof (intro conjI allI impI)
  note res = create_comparison_table_result[OF assms(1-3), of set_iter thr]
  note clash = base_table_enumerated(1)[OF assms(7)]
  fix out
  assume "snd (create_comparison_table set_iter to_float f1 f2 f3 thr) = Inr out"
  with res have "(case merged_table set_iter cp gp tg of
                Inl e \<Rightarrow> Inl e
              | Inr master_df \<Rightarrow> Inr (final_table master_df)) = Inr out"
    by simp
  then have out: "out = final_table (master_rows set_iter cp gp tg)"
    by (cases "merged_table set_iter cp gp tg") (auto dest: merged_table_Inr)
  have "mset (map term_id out) = mset (map term_id (master_rows set_iter cp gp tg))"
    unfolding out by (rule final_table_term_ids)
  also have "\<dots> = mset (set_iter (all_terms cp gp tg))"
    using assms(4-6) by (simp only: master_rows_term_ids)
  finally have ids: "mset (map term_id out) = mset (all_terms cp gp tg)"
    using assms(7) by (simp add: enumerates_def)
  have "distinct (all_terms cp gp tg)" by (simp add: all_terms_def)
  with ids show "distinct (map term_id out)"
    using mset_eq_imp_distinct_iff by blast
  from ids have "set (map term_id out) = set (all_terms cp gp tg)"
    by (rule mset_eq_setD)
  then show "set (map term_id out)
                    = set (dropna (map cp_term_id (table_rows cp)))
                      \<union> set (dropna (map gp_term_id (table_rows gp)))
                      \<union> set (dropna (map tg_term_id (table_rows tg)))"
    by (simp only: set_all_terms)
next
  note res = create_comparison_table_result[OF assms(1-3), of set_iter thr]
  note clash = base_table_enumerated(1)[OF assms(7)]
  show "(\<exists>out. snd (create_comparison_table set_iter to_float f1 f2 f3 thr) = Inr out)
              \<longleftrightarrow> \<not> keys_clash (base_table (all_terms cp gp tg)) cp
                  \<and> \<not> keys_clash (base_table (all_terms cp gp tg)) gp
                  \<and> \<not> keys_clash (base_table (all_terms cp gp tg)) tg"
    unfolding res by (simp add: merged_table_eq clash)
next
  note res = create_comparison_table_result[OF assms(1-3), of set_iter thr]
  note clash = base_table_enumerated(1)[OF assms(7)]
  show "(\<exists>m. snd (create_comparison_table set_iter to_float f1 f2 f3 thr)
                     = Inl (ValueError m))
              \<longleftrightarrow> keys_clash (base_table (all_terms cp gp tg)) cp
                  \<or> keys_clash (base_table (all_terms cp gp tg)) gp
                  \<or> keys_clash (base_table (all_terms cp gp tg)) tg"
    unfolding res by (auto simp: merged_table_eq clash)
qed

theorem one_row_per_term_witness:
  "\<exists>out. snd (create_comparison_table id Fin cp_example gp_example tg_example (Fin (1 / 20)))
            = Inr out
     \<and> distinct (map term_id out)
     \<and> set (map term_id out) = {''GO:0001'', ''GO:0002'', ''GO:0003''}"
proof -
  from cp_example_loaded obtain cp
    where cp: "load_clusterprofiler_results Fin cp_example = Inr cp"
      and cp_ids: "dropna (map cp_term_id (table_rows cp)) = [''GO:0001'', ''GO:0002'']"
      and cp_key: "term_id_dtype cp = Object" "table_rows cp \<noteq> []" by blast
  from gp_example_loaded obtain gp
    where gp: "load_gprofiler2_results gp_example = Inr gp"
      and gp_ids: "dropna (map gp_term_id (table_rows gp)) = [''GO:0002'']"
      and gp_key: "term_id_dtype gp = Object" "table_rows gp \<noteq> []" by blast
  from tg_example_loaded obtain tg
    where tg: "load_topgo_results Fin tg_example = Inr tg"
      and tg_ids: "dropna (map tg_term_id (table_rows tg)) = [''GO:0001'', ''GO:0003'']"
      and tg_key: "term_id_dtype tg = Object" "table_rows tg \<noteq> []" by blast
  have d: "distinct (dropna (map cp_term_id (table_rows cp)))"
    "distinct (dropna (map gp_term_id (table_rows gp)))"
    "distinct (dropna (map tg_term_id (table_rows tg)))"
    by (simp_all add: cp_ids gp_ids tg_ids)
  have u: "set (dropna (map cp_term_id (table_rows cp)))
             \<union> set (dropna (map gp_term_id (table_rows gp)))
             \<union> set (dropna (map tg_term_id (table_rows tg)))
           = {''GO:0001'', ''GO:0002'', ''GO:0003''}"
    by (auto simp: cp_ids gp_ids tg_ids)
  have "all_terms cp gp tg \<noteq> []"
    by (simp add: all_terms_def cp_ids gp_ids tg_ids)
  then have ok: "\<not> keys_clash (base_table (all_terms cp gp tg)) cp
      \<and> \<not> keys_clash (base_table (all_terms cp gp tg)) gp
      \<and> \<not> keys_clash (base_table (all_terms cp gp tg)) tg"
    by (simp add: keys_clash_def base_table_def cp_key gp_key tg_key)
  note t = one_row_per_term[OF cp gp tg d enumerates_id, of "Fin (1 / 20)"]
  from t[THEN conjunct2, THEN conjunct1] ok obtain out
    where out: "snd (create_comparison_table id Fin cp_example gp_example tg_example
                       (Fin (1 / 20))) = Inr out" by blast
  from t[THEN conjunct1, rule_format, OF out]
  have "distinct (map term_id out)"
    and "set (map term_id out) = {''GO:0001'', ''GO:0002'', ''GO:0003''}"
    by (simp_all only: u)
  with out show ?thesis by blast
qed

text \<open>
  C2. Any two adjacent rows of the returned table are in order: \<open>methods_significant\<close>
  does not increase; where it is equal, \<open>methods_total\<close> does not increase; where both
  are equal, the minimum p-value of the upper row is at most that of the lower one,
  a missing minimum counting as greater than every number. (\<open>min_pvalue\<close> is missing
  exactly when the three p-values are, and otherwise is the least of those present:
  lemmas \<open>min_pvalue_missing\<close> and \<open>min_pvalue_least\<close>.)
\<close>

theorem output_sorted:
  assumes "snd (create_comparison_table set_iter to_float f1 f2 f3 thr) = Inr out"
      and "Suc i < length out"
  shows "methods_significant (out ! i) \<ge> methods_significant (out ! Suc i)
         \<and> (methods_significant (out ! i) = methods_significant (out ! Suc i)
              \<longrightarrow> methods_total (out ! i) \<ge> methods_total (out ! Suc i))
         \<and> (methods_significant (out ! i) = methods_significant (out ! Suc i)
              \<and> methods_total (out ! i) = methods_total (out ! Suc i)
              \<longrightarrow> na_last_le (min_pvalue (out ! i)) (min_pvalue (out ! Suc i)))"
proof -
  from create_comparison_table_Inr[OF assms(1)] obtain ms where "out = final_table ms"
    by blast
  then have "sort_le (out ! i) (out ! Suc i)"
    using assms(2) by (simp add: final_table_def sorted_adjacent)
  then show ?thesis by (auto simp: sort_le_def)
qed

theorem output_sorted_witness:
  "\<exists>out. snd (create_comparison_table id Fin cp_example gp_example tg_example (Fin (1 / 20)))
            = Inr out
     \<and> Suc 0 < length out
     \<and> methods_significant (out ! 0) \<ge> methods_significant (out ! Suc 0)
     \<and> (methods_significant (out ! 0) = methods_significant (out ! Suc 0)
          \<longrightarrow> methods_total (out ! 0) \<ge> methods_total (out ! Suc 0))
     \<and> (methods_significant (out ! 0) = methods_significant (out ! Suc 0)
          \<and> methods_total (out ! 0) = methods_total (out ! Suc 0)
          \<longrightarrow> na_last_le (min_pvalue (out ! 0)) (min_pvalue (out ! Suc 0)))
     \<and> map methods_significant out = [1, 1, 1]
     \<and> map methods_total out = [2, 2, 1]
     \<and> map min_pvalue out
         = [Some (Fin (1 / 1000)), Some (Fin (3 / 100)), Some (Fin (1 / 10 ^ 30))]"
proof -
  from example_table obtain out
    where o: "snd (create_comparison_table id Fin cp_example gp_example tg_example
                       (Fin (1 / 20))) = Inr out
     \<and> map term_id out = [''GO:0001'', ''GO:0002'', ''GO:0003'']
     \<and> map methods_significant out = [1, 1, 1]
     \<and> map methods_total out = [2, 2, 1]
     \<and> map min_pvalue out
         = [Some (Fin (1 / 1000)), Some (Fin (3 / 100)), Some (Fin (1 / 10 ^ 30))]" ..
  note out = o[THEN conjunct1]
    and ids = o[THEN conjunct2, THEN conjunct1]
    and sig = o[THEN conjunct2, THEN conjunct2, THEN conjunct1]
    and tot = o[THEN conjunct2, THEN conjunct2, THEN conjunct2, THEN conjunct1]
    and mins = o[THEN conjunct2, THEN conjunct2, THEN conjunct2, THEN conjunct2]
  from ids have "length (map term_id out) = 3" by simp
  then have len: "Suc 0 < length out" and ne: "out \<noteq> []" by auto
  note s = output_sorted[OF out len]
  show ?thesis
    by (rule exI[of _ out]) (intro conjI out len sig tot mins s[THEN conjunct1]
        s[THEN conjunct2, THEN conjunct1] s[THEN conjunct2, THEN conjunct2])
qed

text \<open>
  C3 as stated: two runs on the same three input files return the same table, row order
  included. It fails: the order of \<^verbatim>\<open>list(all_terms)\<close> is not fixed by the inputs, and
  the stable sort keeps it among rows that tie on all three sort keys. With the terms
  of \<open>cp_ties\<close>, \<open>gp_example\<close> and \<open>tg_example\<close> enumerated in one order and in the
  reverse order, the returned tables differ: the tied rows \<^verbatim>\<open>GO:0004\<close> and \<^verbatim>\<open>GO:0005\<close>
  change places.
\<close>

theorem row_order_depends_on_set_order:
  "enumerates id \<and> enumerates rev
   \<and> create_comparison_table id Fin cp_ties gp_example tg_example (Fin (1 / 20))
       \<noteq> create_comparison_table rev Fin cp_ties gp_example tg_example (Fin (1 / 20))"
proof -
  have a: "map_sum id (map term_id)
             (snd (create_comparison_table id Fin cp_ties gp_example tg_example (Fin (1 / 20))))
           = Inr [''GO:0003'', ''GO:0002'', ''GO:0001'', ''GO:0004'', ''GO:0005'']"
    by (simp add: table_defs loader_defs float_defs cp_ties_def gp_example_def tg_example_def)
  have b: "map_sum id (map term_id)
             (snd (create_comparison_table rev Fin cp_ties gp_example tg_example (Fin (1 / 20))))
           = Inr [''GO:0003'', ''GO:0002'', ''GO:0001'', ''GO:0005'', ''GO:0004'']"
    by (simp add: table_defs loader_defs float_defs cp_ties_def gp_example_def tg_example_def)
  have "create_comparison_table id Fin cp_ties gp_example tg_example (Fin (1 / 20))
       \<noteq> create_comparison_table rev Fin cp_ties gp_example tg_example (Fin (1 / 20))"
  proof
    assume "create_comparison_table id Fin cp_ties gp_example tg_example (Fin (1 / 20))
       = create_comparison_table rev Fin cp_ties gp_example tg_example (Fin (1 / 20))"
    with a b have "(Inr [''GO:0003'', ''GO:0002'', ''GO:0001'', ''GO:0004'', ''GO:0005'']
                     :: error + string list)
                 = Inr [''GO:0003'', ''GO:0002'', ''GO:0001'', ''GO:0005'', ''GO:0004'']"
      by simp
    then show False by simp
  qed
  with enumerates_id enumerates_rev show ?thesis by simp
qed

text \<open>
  C3 as amended: two runs on the same three input files, whatever the order in which
  each enumerates the term set, print the same lines and either both fail with the same
  exception or both return a table, and then the two tables hold the same rows, each as
  often in one as in the other, and show the same sequence of sort keys from top to
  bottom. So they differ at most in the order of rows that tie on all three sort keys,
  and they are the same table when no two rows tie.
\<close>

theorem deterministic_up_to_ties:
  assumes "enumerates it1" and "enumerates it2"
  shows "fst (create_comparison_table it1 to_float f1 f2 f3 thr)
           = fst (create_comparison_table it2 to_float f1 f2 f3 thr)
         \<and> (case snd (create_comparison_table it1 to_float f1 f2 f3 thr) of
               Inl e1 \<Rightarrow> snd (create_comparison_table it2 to_float f1 f2 f3 thr) = Inl e1
             | Inr out1 \<Rightarrow>
                 (case snd (create_comparison_table it2 to_float f1 f2 f3 thr) of
                    Inl e2 \<Rightarrow> False
                  | Inr out2 \<Rightarrow>
                      mset out1 = mset out2 \<and> map sort_cols out1 = map sort_cols out2
                      \<and> (distinct (map sort_cols out1) \<longrightarrow> out1 = out2)))"
proof -
  have tables: "mset (final_table (master_rows it1 cp gp tg))
                  = mset (final_table (master_rows it2 cp gp tg))
                \<and> map sort_cols (final_table (master_rows it1 cp gp tg))
                  = map sort_cols (final_table (master_rows it2 cp gp tg))
                \<and> (distinct (map sort_cols (final_table (master_rows it1 cp gp tg)))
                     \<longrightarrow> final_table (master_rows it1 cp gp tg)
                          = final_table (master_rows it2 cp gp tg))" for cp gp tg
  proof -
    have "mset (master_rows it1 cp gp tg) = mset (master_rows it2 cp gp tg)"
      using assms by (rule mset_master_rows)
    then have m: "mset (map out_row.truncate (master_rows it1 cp gp tg))
                    = mset (map out_row.truncate (master_rows it2 cp gp tg))"
      by simp
    then have rows: "mset (final_table (master_rows it1 cp gp tg))
                  = mset (final_table (master_rows it2 cp gp tg))"
      by (simp add: final_table_def mset_sort_values)
    have keys: "map sort_cols (final_table (master_rows it1 cp gp tg))
                  = map sort_cols (final_table (master_rows it2 cp gp tg))"
      unfolding final_table_def using m by (rule sort_values_keys)
    have "final_table (master_rows it1 cp gp tg) = final_table (master_rows it2 cp gp tg)"
      if "distinct (map sort_cols (final_table (master_rows it1 cp gp tg)))"
      using rows keys that by (rule same_rows_same_keys)
    with rows keys show ?thesis by (intro conjI impI)
  qed
  have merged: "(case merged_table it1 cp gp tg of
                   Inl e1 \<Rightarrow> merged_table it2 cp gp tg = Inl e1
                 | Inr ms1 \<Rightarrow> ms1 = master_rows it1 cp gp tg
                     \<and> merged_table it2 cp gp tg = Inr (master_rows it2 cp gp tg))"
    for cp gp tg
    by (simp add: merged_table_eq base_table_enumerated[OF assms(1)]
        base_table_enumerated[OF assms(2)])
  have console: "fst (create_comparison_table it1 to_float f1 f2 f3 thr)
                   = fst (create_comparison_table it2 to_float f1 f2 f3 thr)"
    by (simp add: create_comparison_table_def Let_def split: sum.splits)
  show ?thesis
  proof (cases "load_clusterprofiler_results to_float f1")
    case (Inl e)
    then show ?thesis by (simp add: create_comparison_table_def)
  next
    case cp: (Inr cp)
    show ?thesis
    proof (cases "load_gprofiler2_results f2")
      case (Inl e)
      with cp show ?thesis by (simp add: create_comparison_table_def)
    next
      case gp: (Inr gp)
      show ?thesis
      proof (cases "load_topgo_results to_float f3")
        case (Inl e)
        with cp gp show ?thesis by (simp add: create_comparison_table_def)
      next
        case tg: (Inr tg)
        note r1 = create_comparison_table_result[OF cp gp tg, of it1 thr]
        note r2 = create_comparison_table_result[OF cp gp tg, of it2 thr]
        show ?thesis
        proof (cases "merged_table it1 cp gp tg")
          case (Inl e)
          with merged[of cp gp tg] have "merged_table it2 cp gp tg = Inl e" by simp
          with Inl console show ?thesis by (simp add: r1 r2)
        next
          case (Inr ms)
          with merged[of cp gp tg] have m1: "merged_table it1 cp gp tg
                    = Inr (master_rows it1 cp gp tg)"
            and m2: "merged_table it2 cp gp tg = Inr (master_rows it2 cp gp tg)" by simp_all
          show ?thesis
            unfolding r1 r2 m1 m2 sum.case by (rule conjI[OF console tables])
        qed
      qed
    qed
  qed
qed

theorem deterministic_up_to_ties_witness:
  "fst (create_comparison_table id Fin cp_ties gp_example tg_example (Fin (1 / 20)))
     = fst (create_comparison_table rev Fin cp_ties gp_example tg_example (Fin (1 / 20)))
   \<and> (case snd (create_comparison_table id Fin cp_ties gp_example tg_example (Fin (1 / 20))) of
         Inl e1 \<Rightarrow>
           snd (create_comparison_table rev Fin cp_ties gp_example tg_example (Fin (1 / 20))) = Inl e1
       | Inr out1 \<Rightarrow>
           (case snd (create_comparison_table rev Fin cp_ties gp_example tg_example (Fin (1 / 20))) of
              Inl e2 \<Rightarrow> False
            | Inr out2 \<Rightarrow>
                mset out1 = mset out2 \<and> map sort_cols out1 = map sort_cols out2
                \<and> (distinct (map sort_cols out1) \<longrightarrow> out1 = out2)))"
  by (rule deterministic_up_to_ties[OF enumerates_id enumerates_rev])

section \<open>Claims about the derived counts\<close>

lemma master_row_methods_total:
  "methods_total (master_row j)
     = length (filter (\<lambda>v. v \<noteq> None)
         [clusterprofiler_pvalue (master_row j), gprofiler2_pvalue (master_row j),
          topgo_pvalue (master_row j)])"
  by (simp add: master_row_def notna_int_def split: prod.splits)

lemma master_row_methods_significant:
  "methods_significant (master_row j)
     = length (filter (\<lambda>f. f = Some True)
         [clusterprofiler_significant (master_row j), gprofiler2_significant (master_row j),
          topgo_significant_flag (master_row j)])"
  by (auto simp: master_row_def flag_int_def split: prod.splits option.splits)

lemma merged_table_rows:
  assumes "merged_table set_iter cp gp tg = Inr ms" and "r \<in> set ms"
  shows "\<exists>j. r = master_row j"
proof -
  from assms(1) have "ms = master_rows set_iter cp gp tg" by (rule merged_table_Inr)
  with assms(2) have "r \<in> master_row ` set (joined_rows
          (joined_rows
             (joined_rows (set_iter (all_terms cp gp tg)) Some (table_rows cp) cp_term_id)
             (\<lambda>j. Some (fst j)) (table_rows gp) gp_term_id)
          (\<lambda>j. Some (fst (fst j))) (table_rows tg) tg_term_id)"
    by (simp add: master_rows_def)
  then show ?thesis by blast
qed

lemma returned_rows:
  assumes "snd (create_comparison_table set_iter to_float f1 f2 f3 thr) = Inr out"
      and "r \<in> set out"
  shows "\<exists>j. r = out_row.truncate (master_row j)"
proof -
  from create_comparison_table_Inr[OF assms(1)] obtain cp gp tg
    where m: "merged_table set_iter cp gp tg = Inr (master_rows set_iter cp gp tg)"
      and "out = final_table (master_rows set_iter cp gp tg)" by blast
  with assms(2) obtain m' where "m' \<in> set (master_rows set_iter cp gp tg)"
      and "r = out_row.truncate m'"
    using final_table_rows by blast
  then show ?thesis using merged_table_rows[OF m] by blast
qed

text \<open>
  C4 as stated: \<open>methods_total\<close> is the number of methods that report the term,
  whether or not the reporting method's p-value cell is missing. The code counts
  non-missing p-values instead (C5), although its comment on line 138 reads "Methods
  that included this term in analysis" and line 228 prints the count as "Terms found by
  all 3 methods". With \<open>tg_no_pvalue\<close>, where topGO reports \<^verbatim>\<open>GO:0003\<close> with an empty
  \<^verbatim>\<open>fisher\<close> cell, one method reports the term and its \<open>methods_total\<close> is 0.
\<close>

theorem methods_total_misses_reporting_method:
  "map_sum id table_rows (load_topgo_results Fin tg_no_pvalue)
       = Inr [\<lparr>tg_term_id = Some ''GO:0003'', tg_term_name = Some ''gamma'',
               tg_pvalue_raw = Missing, tg_annotated = Some (Fin 50),
               tg_significant = Some (Fin 20), tg_expected = Some (Fin 1),
               tg_pvalue = None, tg_significant_flag = False\<rparr>]
   \<and> (case (load_clusterprofiler_results Fin cp_example, load_gprofiler2_results gp_example,
             load_topgo_results Fin tg_no_pvalue) of
         (Inr cp, Inr gp, Inr tg) \<Rightarrow>
           map (methods_reporting cp gp tg) [''GO:0002'', ''GO:0001'', ''GO:0003''] = [2, 1, 1]
       | _ \<Rightarrow> False)
   \<and> map_sum id (map (\<lambda>r. (term_id r, methods_total r)))
         (snd (create_comparison_table id Fin cp_example gp_example tg_no_pvalue (Fin (1 / 20))))
       = Inr [(''GO:0002'', 2), (''GO:0001'', 1), (''GO:0003'', 0)]"
  by (simp add: table_defs loader_defs float_defs cp_example_def gp_example_def
      tg_no_pvalue_def methods_reporting_def)

text \<open>
  C5. In every row of the merged table, and so in every row of the table returned,
  \<open>methods_total\<close> is the number of the three p-value columns that are not missing.
\<close>

theorem methods_total_counts_pvalues:
  "(\<forall>master_df. merged_table set_iter cp gp tg = Inr master_df
      \<longrightarrow> (\<forall>r\<in>set master_df.
             methods_total r
               = length (filter (\<lambda>v. v \<noteq> None)
                   [clusterprofiler_pvalue r, gprofiler2_pvalue r, topgo_pvalue r])))
   \<and> (\<forall>out. snd (create_comparison_table set_iter to_float f1 f2 f3 thr) = Inr out
        \<longrightarrow> (\<forall>r\<in>set out.
               methods_total r
                 = length (filter (\<lambda>v. v \<noteq> None)
                     [clusterprofiler_pvalue r, gprofiler2_pvalue r, topgo_pvalue r])))"
proof (intro conjI ballI allI impI)
  fix master_df r
  assume "merged_table set_iter cp gp tg = Inr master_df" and "r \<in> set master_df"
  then obtain j where "r = master_row j" using merged_table_rows by blast
  then show "methods_total r = length (filter (\<lambda>v. v \<noteq> None)
            [clusterprofiler_pvalue r, gprofiler2_pvalue r, topgo_pvalue r])"
    by (simp only: master_row_methods_total)
next
  fix out r
  assume "snd (create_comparison_table set_iter to_float f1 f2 f3 thr) = Inr out"
    and "r \<in> set out"
  then obtain j where "r = out_row.truncate (master_row j)" using returned_rows by blast
  then show "methods_total r = length (filter (\<lambda>v. v \<noteq> None)
            [clusterprofiler_pvalue r, gprofiler2_pvalue r, topgo_pvalue r])"
    using master_row_methods_total[of j] by (simp add: out_row.truncate_def)
qed

theorem methods_total_counts_pvalues_witness:
  "\<exists>out. snd (create_comparison_table id Fin cp_example gp_example tg_example (Fin (1 / 20)))
            = Inr out
     \<and> out \<noteq> []
     \<and> (\<forall>r\<in>set out.
          methods_total r
            = length (filter (\<lambda>v. v \<noteq> None)
                [clusterprofiler_pvalue r, gprofiler2_pvalue r, topgo_pvalue r]))
     \<and> map methods_total out = [2, 2, 1]"
proof -
  from example_table obtain out
    where o: "snd (create_comparison_table id Fin cp_example gp_example tg_example
                       (Fin (1 / 20))) = Inr out
     \<and> map term_id out = [''GO:0001'', ''GO:0002'', ''GO:0003'']
     \<and> map methods_significant out = [1, 1, 1]
     \<and> map methods_total out = [2, 2, 1]
     \<and> map min_pvalue out
         = [Some (Fin (1 / 1000)), Some (Fin (3 / 100)), Some (Fin (1 / 10 ^ 30))]" ..
  note out = o[THEN conjunct1]
    and ids = o[THEN conjunct2, THEN conjunct1]
    and sig = o[THEN conjunct2, THEN conjunct2, THEN conjunct1]
    and tot = o[THEN conjunct2, THEN conjunct2, THEN conjunct2, THEN conjunct1]
    and mins = o[THEN conjunct2, THEN conjunct2, THEN conjunct2, THEN conjunct2]
  from ids have "length (map term_id out) = 3" by simp
  then have len: "Suc 0 < length out" and ne: "out \<noteq> []" by auto
  note t = methods_total_counts_pvalues[of id _ _ _ Fin cp_example gp_example
      tg_example "Fin (1 / 20)", THEN conjunct2, rule_format, OF out]
  show ?thesis
    by (rule exI[of _ out]) (intro conjI ballI out ne tot t)
qed

text \<open>
  C6. In every row of the merged table, and so in every row of the table returned,
  \<open>methods_significant\<close> is the number of the three significance flags that are true;
  a flag that is missing is not true, so it adds nothing, and the count is a number.
\<close>

theorem methods_significant_counts_flags:
  "(\<forall>master_df. merged_table set_iter cp gp tg = Inr master_df
      \<longrightarrow> (\<forall>r\<in>set master_df.
             methods_significant r
               = length (filter (\<lambda>f. f = Some True)
                   [clusterprofiler_significant r, gprofiler2_significant r,
                    topgo_significant_flag r])))
   \<and> (\<forall>out. snd (create_comparison_table set_iter to_float f1 f2 f3 thr) = Inr out
        \<longrightarrow> (\<forall>r\<in>set out.
               methods_significant r
                 = length (filter (\<lambda>f. f = Some True)
                     [clusterprofiler_significant r, gprofiler2_significant r,
                      topgo_significant_flag r])))"
proof (intro conjI ballI allI impI)
  fix master_df r
  assume "merged_table set_iter cp gp tg = Inr master_df" and "r \<in> set master_df"
  then obtain j where "r = master_row j" using merged_table_rows by blast
  then show "methods_significant r = length (filter (\<lambda>f. f = Some True)
            [clusterprofiler_significant r, gprofiler2_significant r,
             topgo_significant_flag r])"
    by (simp only: master_row_methods_significant)
next
  fix out r
  assume "snd (create_comparison_table set_iter to_float f1 f2 f3 thr) = Inr out"
    and "r \<in> set out"
  then obtain j where "r = out_row.truncate (master_row j)" using returned_rows by blast
  then show "methods_significant r = length (filter (\<lambda>f. f = Some True)
            [clusterprofiler_significant r, gprofiler2_significant r,
             topgo_significant_flag r])"
    using master_row_methods_significant[of j] by (simp add: out_row.truncate_def)
qed

theorem methods_significant_counts_flags_witness:
  "\<exists>out. snd (create_comparison_table id Fin cp_example gp_example tg_example (Fin (1 / 20)))
            = Inr out
     \<and> out \<noteq> []
     \<and> (\<forall>r\<in>set out.
          methods_significant r
            = length (filter (\<lambda>f. f = Some True)
                [clusterprofiler_significant r, gprofiler2_significant r,
                 topgo_significant_flag r]))
     \<and> map methods_significant out = [1, 1, 1]"
proof -
  from example_table obtain out
    where o: "snd (create_comparison_table id Fin cp_example gp_example tg_example
                       (Fin (1 / 20))) = Inr out
     \<and> map term_id out = [''GO:0001'', ''GO:0002'', ''GO:0003'']
     \<and> map methods_significant out = [1, 1, 1]
     \<and> map methods_total out = [2, 2, 1]
     \<and> map min_pvalue out
         = [Some (Fin (1 / 1000)), Some (Fin (3 / 100)), Some (Fin (1 / 10 ^ 30))]" ..
  note out = o[THEN conjunct1]
    and ids = o[THEN conjunct2, THEN conjunct1]
    and sig = o[THEN conjunct2, THEN conjunct2, THEN conjunct1]
    and tot = o[THEN conjunct2, THEN conjunct2, THEN conjunct2, THEN conjunct1]
    and mins = o[THEN conjunct2, THEN conjunct2, THEN conjunct2, THEN conjunct2]
  from ids have "length (map term_id out) = 3" by simp
  then have len: "Suc 0 < length out" and ne: "out \<noteq> []" by auto
  note t = methods_significant_counts_flags[of id _ _ _ Fin cp_example gp_example
      tg_example "Fin (1 / 20)", THEN conjunct2, rule_format, OF out]
  show ?thesis
    by (rule exI[of _ out]) (intro conjI ballI out ne sig t)
qed

section \<open>Claims about the normalizer\<close>

lemma py_float_raises:
  assumes "py_float to_float s = Inl e"
  shows "e = ValueError s"
  using assms
  by (auto simp: py_float_def split: prod.splits if_splits option.splits)

lemma parse_p_value_returns: "\<exists>v. parse_p_value to_float c = Inr v"
proof (cases c)
  case (Text s)
  show ?thesis
  proof (cases "py_float to_float (drop_less (strip s))")
    case (Inl e)
    then have "e = ValueError (drop_less (strip s))" by (rule py_float_raises)
    with Inl Text show ?thesis by (simp add: parse_p_value_def)
  next
    case (Inr v)
    with Text show ?thesis by (simp add: parse_p_value_def)
  qed
qed (simp_all add: parse_p_value_def)

text \<open>
  C7. \<^verbatim>\<open>parse_p_value\<close> returns on every cell and never raises. A missing cell gives
  the missing marker. A float cell comes back unchanged. A text cell is stripped, loses
  a leading \<^verbatim>\<open><\<close> and the blanks after it, and the rest goes to \<^verbatim>\<open>float\<close>: its
  value is returned as it is, and text \<^verbatim>\<open>float\<close> rejects gives the missing marker.
  The five sample calls of the specification give the results it lists, where the floats
  \<^verbatim>\<open>1e-30\<close> and \<^verbatim>\<open>0.05\<close> are the doubles nearest to \<open>1 / 10 ^ 30\<close> and \<open>1 / 20\<close>.
\<close>

theorem parse_p_value_spec:
  "(\<exists>v. parse_p_value to_float c = Inr v)
   \<and> parse_p_value to_float Missing = Inr None
   \<and> parse_p_value to_float (Number x) = Inr (Some x)
   \<and> parse_p_value to_float (Text s)
       = (case py_float to_float (drop_less (strip s)) of
            Inl e \<Rightarrow> Inr None
          | Inr v \<Rightarrow> Inr v)
   \<and> drop_less (strip ''  <  1e-30 '') = ''1e-30''
   \<and> parse_p_value to_float (Text ''< 1e-30'') = Inr (Some (to_float (1 / 10 ^ 30)))
   \<and> parse_p_value to_float (Text ''0.05'') = Inr (Some (to_float (1 / 20)))
   \<and> parse_p_value to_float (Text '''') = Inr None
   \<and> parse_p_value to_float (Text ''n/a'') = Inr None"
proof -
  have "parse_p_value to_float (Text s)
       = (case py_float to_float (drop_less (strip s)) of
            Inl e \<Rightarrow> Inr None
          | Inr v \<Rightarrow> Inr v)"
  proof (cases "py_float to_float (drop_less (strip s))")
    case (Inl e)
    then have "e = ValueError (drop_less (strip s))" by (rule py_float_raises)
    with Inl show ?thesis by (simp add: parse_p_value_def)
  next
    case (Inr v)
    then show ?thesis by (simp add: parse_p_value_def)
  qed
  moreover have "drop_less (strip ''  <  1e-30 '') = ''1e-30''"
    by (simp add: drop_less_def strip_def is_space_def)
  moreover have "parse_p_value to_float (Text ''< 1e-30'') = Inr (Some (to_float (1 / 10 ^ 30)))"
    by (simp add: float_defs)
  moreover have "parse_p_value to_float (Text ''0.05'') = Inr (Some (to_float (1 / 20)))"
    by (simp add: float_defs)
  moreover have "parse_p_value to_float (Text '''') = Inr None"
    by (simp add: float_defs)
  moreover have "parse_p_value to_float (Text ''n/a'') = Inr None"
    by (simp add: float_defs)
  moreover have "parse_p_value to_float Missing = Inr None"
    "parse_p_value to_float (Number x) = Inr (Some x)"
    by (simp_all add: parse_p_value_def)
  ultimately show ?thesis using parse_p_value_returns[of to_float c] by blast
qed

theorem parse_p_value_spec_witness:
  "(\<exists>v. parse_p_value Fin (Text ''1.5e'') = Inr v)
   \<and> parse_p_value Fin Missing = Inr None
   \<and> parse_p_value Fin (Number (Fin (1 / 2))) = Inr (Some (Fin (1 / 2)))
   \<and> parse_p_value Fin (Text '' <0.001'')
       = (case py_float Fin (drop_less (strip '' <0.001'')) of
            Inl e \<Rightarrow> Inr None
          | Inr v \<Rightarrow> Inr v)
   \<and> drop_less (strip ''  <  1e-30 '') = ''1e-30''
   \<and> parse_p_value Fin (Text ''< 1e-30'') = Inr (Some (Fin (1 / 10 ^ 30)))
   \<and> parse_p_value Fin (Text ''0.05'') = Inr (Some (Fin (1 / 20)))
   \<and> parse_p_value Fin (Text '''') = Inr None
   \<and> parse_p_value Fin (Text ''n/a'') = Inr None"
  by (rule parse_p_value_spec)

section \<open>Claims about the run\<close>

text \<open>
  C8. When one of the three input files is absent, the run prints one line, the error
  message that ends in the path of the first absent file, returns without an exception,
  and leaves the file system as it was: the output file is not written.
\<close>

theorem missing_file_reported:
  assumes "clusterprofiler_csv fs = None \<or> gprofiler2_csv fs = None \<or> topgo_csv fs = None"
  shows "\<exists>p. console (main results_dir set_iter to_float fs)
                = [Line (''Error: File not found - '' @ p)]
           \<and> outcome (main results_dir set_iter to_float fs) = Returned
           \<and> files (main results_dir set_iter to_float fs) = fs
           \<and> ((p = clusterprofiler_path results_dir \<and> clusterprofiler_csv fs = None)
                \<or> (p = gprofiler2_path results_dir \<and> clusterprofiler_csv fs \<noteq> None
                     \<and> gprofiler2_csv fs = None)
                \<or> (p = topgo_path results_dir \<and> clusterprofiler_csv fs \<noteq> None
                     \<and> gprofiler2_csv fs \<noteq> None \<and> topgo_csv fs = None))"
proof (cases "clusterprofiler_csv fs")
  case None
  then show ?thesis by (simp add: main_def)
next
  case cp: (Some f1)
  show ?thesis
  proof (cases "gprofiler2_csv fs")
    case None
    with cp show ?thesis by (simp add: main_def)
  next
    case gp: (Some f2)
    with cp assms have "topgo_csv fs = None" by simp
    with cp gp show ?thesis by (simp add: main_def)
  qed
qed

theorem missing_file_reported_witness:
  "\<exists>p. console (main ''/work/results'' id Fin (fs_example\<lparr>topgo_csv := None\<rparr>))
          = [Line (''Error: File not found - '' @ p)]
     \<and> p = ''/work/results/topGO_enrichment_results.csv''
     \<and> outcome (main ''/work/results'' id Fin (fs_example\<lparr>topgo_csv := None\<rparr>)) = Returned
     \<and> files (main ''/work/results'' id Fin (fs_example\<lparr>topgo_csv := None\<rparr>))
         = fs_example\<lparr>topgo_csv := None\<rparr>
     \<and> comparison_table_csv (files (main ''/work/results'' id Fin
            (fs_example\<lparr>topgo_csv := None\<rparr>))) = None"
proof -
  have "clusterprofiler_csv (fs_example\<lparr>topgo_csv := None\<rparr>) = None
        \<or> gprofiler2_csv (fs_example\<lparr>topgo_csv := None\<rparr>) = None
        \<or> topgo_csv (fs_example\<lparr>topgo_csv := None\<rparr>) = None"
    by simp
  from missing_file_reported[OF this, of "''/work/results''" id Fin]
  show ?thesis
    by (auto simp: fs_example_def topgo_path_def)
qed

lemma first_missing_Some:
  assumes "\<not> set cols \<subseteq> set hdr"
  shows "\<exists>c. first_missing hdr cols = Some c \<and> c \<in> set cols \<and> c \<notin> set hdr"
proof -
  from assms have "find (\<lambda>c. c \<notin> set hdr) cols \<noteq> None"
    by (auto simp: find_None_iff)
  then obtain c where c: "find (\<lambda>c. c \<notin> set hdr) cols = Some c" by auto
  then have "c \<in> set cols \<and> c \<notin> set hdr"
    by (auto simp: find_Some_iff)
  with c show ?thesis by (simp add: first_missing_def)
qed

lemma first_missing_None:
  assumes "set cols \<subseteq> set hdr"
  shows "first_missing hdr cols = None"
  using assms by (auto simp: first_missing_def find_None_iff)

lemma cp_schema_error:
  assumes "\<not> set cp_columns \<subseteq> set (header df)"
  shows "\<exists>c. load_clusterprofiler_results to_float df = Inl (KeyError c)
           \<and> c \<in> set cp_columns \<and> c \<notin> set (header df)"
proof -
  from first_missing_Some[OF assms] obtain c
    where "first_missing (header df) cp_columns = Some c" "c \<in> set cp_columns"
      "c \<notin> set (header df)" by blast
  then show ?thesis by (simp add: load_clusterprofiler_results_def)
qed

lemma gp_schema_error:
  assumes "\<not> set (''source'' # gp_columns) \<subseteq> set (header df)"
  shows "\<exists>c. load_gprofiler2_results df = Inl (KeyError c)
           \<and> c \<in> set (''source'' # gp_columns) \<and> c \<notin> set (header df)"
proof (cases "''source'' \<in> set (header df)")
  case False
  then show ?thesis by (simp add: load_gprofiler2_results_def)
next
  case True
  with assms have "\<not> set gp_columns \<subseteq> set (header df)" by simp
  from first_missing_Some[OF this] obtain c
    where "first_missing (header df) gp_columns = Some c" "c \<in> set gp_columns"
      "c \<notin> set (header df)" by blast
  with True show ?thesis by (simp add: load_gprofiler2_results_def)
qed

lemma tg_schema_error:
  assumes "\<not> set tg_columns \<subseteq> set (header df)"
  shows "\<exists>c. load_topgo_results to_float df = Inl (KeyError c)
           \<and> c \<in> set tg_columns \<and> c \<notin> set (header df)"
proof -
  from first_missing_Some[OF assms] obtain c
    where "first_missing (header df) tg_columns = Some c" "c \<in> set tg_columns"
      "c \<notin> set (header df)" by blast
  then show ?thesis by (simp add: load_topgo_results_def)
qed

lemma cp_loads:
  assumes "set cp_columns \<subseteq> set (header df)"
  shows "\<exists>cp. load_clusterprofiler_results to_float df = Inr cp"
  using first_missing_None[OF assms] by (simp add: load_clusterprofiler_results_def)

lemma gp_loads:
  assumes "set (''source'' # gp_columns) \<subseteq> set (header df)"
  shows "\<exists>gp. load_gprofiler2_results df = Inr gp"
proof -
  from assms have "set gp_columns \<subseteq> set (header df)" "''source'' \<in> set (header df)"
    by simp_all
  then show ?thesis
    using first_missing_None[of gp_columns "header df"]
    by (simp add: load_gprofiler2_results_def)
qed

lemma sequence_err_returns:
  assumes "\<forall>x\<in>set xs. \<exists>v. x = Inr v"
  shows "\<exists>vs. sequence_err xs = Inr vs"
  using assms by (induction xs) auto

lemma tg_loads:
  assumes "set tg_columns \<subseteq> set (header df)"
  shows "\<exists>tg. load_topgo_results to_float df = Inr tg"
proof -
  have "\<exists>ps. sequence_err (map (\<lambda>r. parse_p_value to_float (tgf_fisher r)) (rows df)) = Inr ps"
    by (rule sequence_err_returns) (auto simp: parse_p_value_returns)
  then show ?thesis
    using first_missing_None[OF assms] by (auto simp: load_topgo_results_def)
qed

text \<open>
  C9. A file that lacks a column of its method's schema makes its loader fail with a
  \<^verbatim>\<open>KeyError\<close> that names a column of the schema absent from the file (the first one
  the loader reads). When the three files are present and one of them lacks such a
  column, the run ends during loading with such an exception, raised by the loader of
  the first defective file, and the output file is not written: the file system is as it
  was.
\<close>

theorem schema_error_aborts:
  "(\<not> set cp_columns \<subseteq> set (header f1)
      \<longrightarrow> (\<exists>c. load_clusterprofiler_results to_float f1 = Inl (KeyError c)
                \<and> c \<in> set cp_columns \<and> c \<notin> set (header f1)))
   \<and> (\<not> set (''source'' # gp_columns) \<subseteq> set (header f2)
      \<longrightarrow> (\<exists>c. load_gprofiler2_results f2 = Inl (KeyError c)
                \<and> c \<in> set (''source'' # gp_columns) \<and> c \<notin> set (header f2)))
   \<and> (\<not> set tg_columns \<subseteq> set (header f3)
      \<longrightarrow> (\<exists>c. load_topgo_results to_float f3 = Inl (KeyError c)
                \<and> c \<in> set tg_columns \<and> c \<notin> set (header f3)))
   \<and> (clusterprofiler_csv fs = Some f1 \<and> gprofiler2_csv fs = Some f2 \<and> topgo_csv fs = Some f3
       \<and> (\<not> set cp_columns \<subseteq> set (header f1)
            \<or> \<not> set (''source'' # gp_columns) \<subseteq> set (header f2)
            \<or> \<not> set tg_columns \<subseteq> set (header f3))
      \<longrightarrow> (\<exists>c. outcome (main results_dir set_iter to_float fs) = Raised (KeyError c)
                \<and> files (main results_dir set_iter to_float fs) = fs
                \<and> (c \<in> set cp_columns \<and> c \<notin> set (header f1)
                     \<or> c \<in> set (''source'' # gp_columns) \<and> c \<notin> set (header f2)
                     \<or> c \<in> set tg_columns \<and> c \<notin> set (header f3))))"
proof (intro conjI impI)
  assume "\<not> set cp_columns \<subseteq> set (header f1)"
  then show "\<exists>c. load_clusterprofiler_results to_float f1 = Inl (KeyError c)
                \<and> c \<in> set cp_columns \<and> c \<notin> set (header f1)"
    by (rule cp_schema_error)
next
  assume "\<not> set (''source'' # gp_columns) \<subseteq> set (header f2)"
  then show "\<exists>c. load_gprofiler2_results f2 = Inl (KeyError c)
                \<and> c \<in> set (''source'' # gp_columns) \<and> c \<notin> set (header f2)"
    by (rule gp_schema_error)
next
  assume "\<not> set tg_columns \<subseteq> set (header f3)"
  then show "\<exists>c. load_topgo_results to_float f3 = Inl (KeyError c)
                \<and> c \<in> set tg_columns \<and> c \<notin> set (header f3)"
    by (rule tg_schema_error)
next
  assume a: "clusterprofiler_csv fs = Some f1 \<and> gprofiler2_csv fs = Some f2
       \<and> topgo_csv fs = Some f3
       \<and> (\<not> set cp_columns \<subseteq> set (header f1)
            \<or> \<not> set (''source'' # gp_columns) \<subseteq> set (header f2)
            \<or> \<not> set tg_columns \<subseteq> set (header f3))"
  then have present: "clusterprofiler_csv fs = Some f1" "gprofiler2_csv fs = Some f2"
    "topgo_csv fs = Some f3" by simp_all
  let ?goal = "\<exists>c. outcome (main results_dir set_iter to_float fs) = Raised (KeyError c)
                \<and> files (main results_dir set_iter to_float fs) = fs
                \<and> (c \<in> set cp_columns \<and> c \<notin> set (header f1)
                     \<or> c \<in> set (''source'' # gp_columns) \<and> c \<notin> set (header f2)
                     \<or> c \<in> set tg_columns \<and> c \<notin> set (header f3))"
  show ?goal
  proof (cases "set cp_columns \<subseteq> set (header f1)")
    case False
    from cp_schema_error[OF False, of to_float] obtain c
      where "load_clusterprofiler_results to_float f1 = Inl (KeyError c)"
        "c \<in> set cp_columns" "c \<notin> set (header f1)" by blast
    with present show ?thesis
      by (simp add: main_def create_comparison_table_def)
  next
    case cp_ok: True
    from cp_loads[OF cp_ok, of to_float] obtain cp
      where cp: "load_clusterprofiler_results to_float f1 = Inr cp" by blast
    show ?thesis
    proof (cases "set (''source'' # gp_columns) \<subseteq> set (header f2)")
      case False
      from gp_schema_error[OF False] obtain c
        where "load_gprofiler2_results f2 = Inl (KeyError c)"
          "c \<in> set (''source'' # gp_columns)" "c \<notin> set (header f2)" by blast
      with present cp show ?thesis
        by (simp add: main_def create_comparison_table_def)
    next
      case gp_ok: True
      from gp_loads[OF gp_ok] obtain gp
        where gp: "load_gprofiler2_results f2 = Inr gp" by blast
      from a cp_ok gp_ok have "\<not> set tg_columns \<subseteq> set (header f3)" by blast
      from tg_schema_error[OF this, of to_float] obtain c
        where "load_topgo_results to_float f3 = Inl (KeyError c)"
          "c \<in> set tg_columns" "c \<notin> set (header f3)" by blast
      with present cp gp show ?thesis
        by (simp add: main_def create_comparison_table_def)
    qed
  qed
qed

theorem schema_error_aborts_witness:
  "load_clusterprofiler_results Fin cp_no_qvalue = Inl (KeyError ''qvalue'')
   \<and> outcome (main ''/work/results'' id Fin (fs_example\<lparr>clusterprofiler_csv := Some cp_no_qvalue\<rparr>))
       = Raised (KeyError ''qvalue'')
   \<and> files (main ''/work/results'' id Fin (fs_example\<lparr>clusterprofiler_csv := Some cp_no_qvalue\<rparr>))
       = fs_example\<lparr>clusterprofiler_csv := Some cp_no_qvalue\<rparr>
   \<and> comparison_table_csv
         (files (main ''/work/results'' id Fin (fs_example\<lparr>clusterprofiler_csv := Some cp_no_qvalue\<rparr>)))
       = None"
proof -
  let ?fs = "fs_example\<lparr>clusterprofiler_csv := Some cp_no_qvalue\<rparr>"
  have missing: "\<not> set cp_columns \<subseteq> set (header cp_no_qvalue)"
    by (simp add: cp_no_qvalue_def cp_columns_def)
  have only: "c \<in> set cp_columns \<and> c \<notin> set (header cp_no_qvalue) \<longleftrightarrow> c = ''qvalue''" for c
    by (auto simp: cp_no_qvalue_def cp_columns_def)
  have gp_ok: "set (''source'' # gp_columns) \<subseteq> set (header gp_example)"
    and tg_ok: "set tg_columns \<subseteq> set (header tg_example)"
    by (simp_all add: gp_example_def tg_example_def)
  have present: "clusterprofiler_csv ?fs = Some cp_no_qvalue \<and> gprofiler2_csv ?fs = Some gp_example
      \<and> topgo_csv ?fs = Some tg_example
      \<and> (\<not> set cp_columns \<subseteq> set (header cp_no_qvalue)
            \<or> \<not> set (''source'' # gp_columns) \<subseteq> set (header gp_example)
            \<or> \<not> set tg_columns \<subseteq> set (header tg_example))"
    using missing by (simp add: fs_example_def)
  note t = schema_error_aborts[of cp_no_qvalue Fin gp_example tg_example ?fs
      "''/work/results''" id]
  from t[THEN conjunct1, rule_format, OF missing] only
  have l: "load_clusterprofiler_results Fin cp_no_qvalue = Inl (KeyError ''qvalue'')"
    by auto
  from t[THEN conjunct2, THEN conjunct2, THEN conjunct2, rule_format, OF present]
  obtain c where c: "outcome (main ''/work/results'' id Fin ?fs) = Raised (KeyError c)"
      "files (main ''/work/results'' id Fin ?fs) = ?fs"
      "c \<in> set cp_columns \<and> c \<notin> set (header cp_no_qvalue)
         \<or> c \<in> set (''source'' # gp_columns) \<and> c \<notin> set (header gp_example)
         \<or> c \<in> set tg_columns \<and> c \<notin> set (header tg_example)" by blast
  from c(3) gp_ok tg_ok only have "c = ''qvalue''" by blast
  with c(1,2) l show ?thesis by (simp add: fs_example_def)
qed

text \<open>
  C10. The parameter \<open>significance_threshold\<close> has no effect: whatever its value,
  \<^verbatim>\<open>create_comparison_table\<close> prints the same lines and returns the same table or raises
  the same exception. The two cutoffs are the literals \<^verbatim>\<open>0.05\<close> of the loaders.
\<close>

theorem significance_threshold_unused:
  "create_comparison_table set_iter to_float f1 f2 f3 t1
     = create_comparison_table set_iter to_float f1 f2 f3 t2"
  by (simp add: create_comparison_table_def)

theorem significance_threshold_unused_witness:
  "create_comparison_table id Fin cp_example gp_example tg_example (Fin (1 / 20))
     = create_comparison_table id Fin cp_example gp_example tg_example (Fin (9 / 10))"
  by (rule significance_threshold_unused)

text \<open>A run on the sample files returns normally and writes the table.\<close>

lemma main_example_writes:
  "outcome (main ''/work/results'' id Fin fs_example) = Returned
   \<and> map_option (map term_id)
        (comparison_table_csv (files (main ''/work/results'' id Fin fs_example)))
       = Some [''GO:0001'', ''GO:0002'', ''GO:0003'']"
  by (simp add: main_def fs_example_def table_defs loader_defs float_defs cp_example_def
      gp_example_def tg_example_def)

end
